theory Spec2Isabelle
  imports Complex_Main "HOL-Library.Word"
begin

section \<open>Data model of the live-subtitle pipeline\<close>

text \<open>
  The development embeds \<^verbatim>\<open>src/deepgram_transcriber.py\<close> (class
  \<^verbatim>\<open>DeepgramTranscriber\<close>) and the display callback of \<^verbatim>\<open>main.py\<close>.
  Python strings are \<open>string\<close>; the fixed Chinese literals of the source are given as
  their UTF-8 bytes. Wall-clock readings (\<^verbatim>\<open>datetime.now()\<close>) are inputs of the
  handlers. The values of \<^verbatim>\<open>datetime.timestamp()\<close> are taken as reals: the only
  arithmetic on them is one subtraction and one comparison with \<open>1.0\<close>.
  The registered callbacks are observed through the lists \<open>emitted\<close> and \<open>errors\<close>,
  the calls on the recognizer connection through \<open>conn_log\<close>; callbacks are assumed
  not to raise. \<open>scheduled_reconnects\<close> counts the \<^verbatim>\<open>_reconnect\<close> coroutines handed
  to the main loop that have not run yet.
\<close>

record TranscriptionResult =
  detected_language :: string
  original_text :: string
  chinese_translation :: string
  timestamp :: string
  is_final :: bool

text \<open>The recognizer's transcript event: \<^verbatim>\<open>result.channel.alternatives\<close> and
  \<^verbatim>\<open>result.is_final\<close>; an alternative has a transcript and may have languages.\<close>

record alternative =
  transcript :: string
  languages :: "string list option"

record live_result =
  alternatives :: "alternative list"
  lr_is_final :: bool

text \<open>The dictionary put on the polish queue by \<^verbatim>\<open>_queue_for_polish\<close>
  (keys \<^verbatim>\<open>'text'\<close>, \<^verbatim>\<open>'language'\<close>, \<^verbatim>\<open>'timestamp'\<close>).\<close>

record polish_item =
  item_text :: string
  item_language :: string
  item_timestamp :: string

text \<open>One reading of the clock: \<^verbatim>\<open>datetime.now().timestamp()\<close> and
  \<^verbatim>\<open>datetime.now().strftime('%H:%M:%S')\<close>.\<close>

record clock =
  now_ts :: real
  now_hms :: string

type_synonym bytes = "8 word list"

datatype conn_event =
    Finished
  | Slept real
  | CreateCalled
  | StartCalled
  | Sent bytes

text \<open>Where the task running \<^verbatim>\<open>_polish_processor\<close> stands: not created, created and
  runnable at the loop head, suspended in \<^verbatim>\<open>polish_queue.get()\<close> on an empty queue,
  suspended in the call of the polishing service for an item, or finished.\<close>

datatype task_status =
    NotCreated
  | AtLoopHead
  | Waiting
  | InFlight polish_item
  | Done

datatype exc_class = Exception | ConnectionError | OtherError

datatype py_exception = Raise exc_class string

fun exc_message :: "py_exception \<Rightarrow> string" where
  "exc_message (Raise c m) = m"

fun exc_class_of :: "py_exception \<Rightarrow> exc_class" where
  "exc_class_of (Raise c m) = c"

record transcriber =
  language :: string
  interim_results :: bool
  connection :: bool
  is_running :: bool
  connection_ready :: bool
  main_loop :: bool
  reconnect_attempts :: nat
  is_reconnecting :: bool
  transcription_callback :: bool
  error_callback :: bool
  recent_transcriptions :: "TranscriptionResult list"
  pending_text :: string
  last_translation_time :: real
  polish_queue :: "polish_item option list"
  polish_task :: task_status
  scheduled_reconnects :: nat
  emitted :: "TranscriptionResult list"
  errors :: "string list"
  conn_log :: "conn_event list"

text \<open>Attributes assigned once in \<^verbatim>\<open>__init__\<close> and never reassigned.\<close>

definition context_window :: nat where
  "context_window = 40"

definition max_reconnect_attempts :: nat where
  "max_reconnect_attempts = 5"

definition reconnect_delay :: real where
  "reconnect_delay = 2"

definition translation_threshold :: real where
  "translation_threshold = 1"

definition init_transcriber :: "string \<Rightarrow> bool \<Rightarrow> transcriber" where
  "init_transcriber lang interim =
     \<lparr> language = lang, interim_results = interim, connection = False,
       is_running = False, connection_ready = False, main_loop = False,
       reconnect_attempts = 0, is_reconnecting = False,
       transcription_callback = False, error_callback = False,
       recent_transcriptions = [], pending_text = [], last_translation_time = 0,
       polish_queue = [], polish_task = NotCreated, scheduled_reconnects = 0,
       emitted = [], errors = [], conn_log = [] \<rparr>"

definition set_transcription_callback :: "transcriber \<Rightarrow> transcriber" where
  "set_transcription_callback s = s\<lparr>transcription_callback := True\<rparr>"

definition set_error_callback :: "transcriber \<Rightarrow> transcriber" where
  "set_error_callback s = s\<lparr>error_callback := True\<rparr>"

subsection \<open>Fixed message texts (UTF-8)\<close>

definition start_error_prefix :: string where
  "start_error_prefix = [CHR 0xE5, CHR 0x90, CHR 0xAF, CHR 0xE5, CHR 0x8A, CHR 0xA8,
     CHR 0xE5, CHR 0xA4, CHR 0xB1, CHR 0xE8, CHR 0xB4, CHR 0xA5, CHR 0x3A, CHR 0x20]"

definition reconnect_error_prefix :: string where
  "reconnect_error_prefix = [CHR 0xE6, CHR 0x97, CHR 0xA0, CHR 0xE6, CHR 0xB3, CHR 0x95,
     CHR 0xE9, CHR 0x87, CHR 0x8D, CHR 0xE6, CHR 0x96, CHR 0xB0, CHR 0xE8, CHR 0xBF, CHR 0x9E,
     CHR 0xE6, CHR 0x8E, CHR 0xA5, CHR 0x3A, CHR 0x20]"

definition send_error_prefix :: string where
  "send_error_prefix = [CHR 0xE5, CHR 0x8F, CHR 0x91, CHR 0xE9, CHR 0x80, CHR 0x81,
     CHR 0xE9, CHR 0x9F, CHR 0xB3, CHR 0xE9, CHR 0xA2, CHR 0x91, CHR 0xE9, CHR 0x94, CHR 0x99,
     CHR 0xE8, CHR 0xAF, CHR 0xAF, CHR 0x3A, CHR 0x20]"

definition transcript_error_prefix :: string where
  "transcript_error_prefix = [CHR 0xE5, CHR 0xA4, CHR 0x84, CHR 0xE7, CHR 0x90, CHR 0x86,
     CHR 0xE8, CHR 0xBD, CHR 0xAC, CHR 0xE5, CHR 0xBD, CHR 0x95, CHR 0xE9, CHR 0x94, CHR 0x99,
     CHR 0xE8, CHR 0xAF, CHR 0xAF, CHR 0x3A, CHR 0x20]"

definition reconnected_translation :: string where
  "reconnected_translation = [CHR 0x5B, CHR 0xE9, CHR 0x87, CHR 0x8D, CHR 0xE6, CHR 0x96,
     CHR 0xB0, CHR 0xE8, CHR 0xBF, CHR 0x9E, CHR 0xE6, CHR 0x8E, CHR 0xA5, CHR 0xE6, CHR 0x88,
     CHR 0x90, CHR 0xE5, CHR 0x8A, CHR 0x9F, CHR 0x5D]"

subsection \<open>Callbacks\<close>

text \<open>\<^verbatim>\<open>if self._transcription_callback: self._transcription_callback(r)\<close>\<close>

definition emit :: "TranscriptionResult \<Rightarrow> transcriber \<Rightarrow> transcriber" where
  "emit r s = (if transcription_callback s then s\<lparr>emitted := emitted s @ [r]\<rparr> else s)"

text \<open>\<^verbatim>\<open>if self._error_callback: self._error_callback(msg)\<close>\<close>

definition report_error :: "string \<Rightarrow> transcriber \<Rightarrow> transcriber" where
  "report_error msg s = (if error_callback s then s\<lparr>errors := errors s @ [msg]\<rparr> else s)"

section \<open>ResultAggregator: the transcript handler\<close>

text \<open>\<^verbatim>\<open>langs[0] if langs else (self.language or "unknown")\<close>\<close>

definition detected_lang :: "string \<Rightarrow> alternative \<Rightarrow> string" where
  "detected_lang self_language alt =
     (case languages alt of
        Some (l # ls) \<Rightarrow> l
      | _ \<Rightarrow> (if self_language \<noteq> [] then self_language else ''unknown''))"

text \<open>\<^verbatim>\<open>_queue_for_polish\<close>: the coroutine is handed to the main loop, which puts the
  item at the back of the queue. Scheduled coroutines run in the order they were handed
  over, so the model puts the item at once.\<close>

definition queue_for_polish :: "clock \<Rightarrow> string \<Rightarrow> live_result \<Rightarrow> transcriber \<Rightarrow> transcriber" where
  "queue_for_polish clk tr res s =
     (case alternatives res of
        [] \<Rightarrow> s
      | alt # alts \<Rightarrow>
          s\<lparr>polish_queue := polish_queue s @
              [Some \<lparr> item_text = tr, item_language = detected_lang (language s) alt,
                      item_timestamp = now_hms clk \<rparr>]\<rparr>)"

text \<open>\<^verbatim>\<open>_on_transcript\<close>. A missing result returns at once; an empty list of
  alternatives raises \<^verbatim>\<open>IndexError\<close>, which the handler catches and reports; an empty
  transcript returns before any state is touched.\<close>

definition on_transcript :: "clock \<Rightarrow> live_result option \<Rightarrow> transcriber \<Rightarrow> transcriber" where
  "on_transcript clk result s =
     (case result of
        None \<Rightarrow> s
      | Some res \<Rightarrow>
         (case alternatives res of
            [] \<Rightarrow> report_error (transcript_error_prefix @ ''list index out of range'') s
          | alt # alts \<Rightarrow>
             (let tr = transcript alt; fin = lr_is_final res in
              if tr = [] then s
              else if interim_results s \<and> \<not> fin then
                (let s1 = s\<lparr>pending_text := tr\<rparr>;
                     interim_result = \<lparr> detected_language = detected_lang (language s1) alt,
                                        original_text = tr,
                                        chinese_translation = [],
                                        timestamp = now_hms clk,
                                        is_final = False \<rparr>;
                     s2 = emit interim_result s1;
                     current_time = now_ts clk;
                     time_since_last = current_time - last_translation_time s2
                 in if time_since_last \<ge> translation_threshold then
                      (let s3 = s2\<lparr>last_translation_time := current_time\<rparr>
                       in if main_loop s3 then queue_for_polish clk tr res s3 else s3)
                    else s2)
              else if fin then
                (let s1 = s\<lparr>pending_text := []\<rparr>;
                     s2 = s1\<lparr>last_translation_time := now_ts clk\<rparr>
                 in if main_loop s2 then queue_for_polish clk tr res s2 else s2)
              else s)))"

section \<open>PolishPipeline\<close>

text \<open>What the call of the polishing service and the decoding of its answer come to.
  The service, \<^verbatim>\<open>json.loads\<close> and \<^verbatim>\<open>re.search\<close> are outside the
  repository, so their result is an input:
  \<^item> \<open>CallRaises\<close>: the call (or reading the completion) raises;
  \<^item> \<open>ResponseObject v\<close>: the content decodes to a JSON object, \<open>v\<close> being its
    \<^verbatim>\<open>chinese_translation\<close> member when it has one (taken to be text);
  \<^item> \<open>ResponseNotObject\<close>: the content decodes to a JSON value without
    \<^verbatim>\<open>.get\<close>, so reading the member raises;
  \<^item> \<open>ResponseMalformed m\<close>: \<^verbatim>\<open>JSONDecodeError\<close>, \<open>m\<close> being group 1 of the
    fallback regular expression when it matches.\<close>

datatype polish_outcome =
    CallRaises string
  | ResponseObject "string option"
  | ResponseNotObject
  | ResponseMalformed "string option"

text \<open>Python's \<^verbatim>\<open>xs[-n:]\<close> for \<open>n \<ge> 0\<close>.\<close>

definition last_entries :: "nat \<Rightarrow> 'a list \<Rightarrow> 'a list" where
  "last_entries n xs = (if n = 0 then xs else drop (length xs - n) xs)"

definition make_result :: "string \<Rightarrow> string \<Rightarrow> string \<Rightarrow> string \<Rightarrow> TranscriptionResult" where
  "make_result lang tx translation ts =
     \<lparr> detected_language = lang, original_text = tx, chinese_translation = translation,
       timestamp = ts, is_final = True \<rparr>"

text \<open>The tail of the \<^verbatim>\<open>try\<close> block of \<^verbatim>\<open>_polish_transcription\<close>: build the
  result, append it to the context, cut the context to its last 40 entries.\<close>

definition add_to_context :: "TranscriptionResult \<Rightarrow> transcriber \<Rightarrow> TranscriptionResult \<times> transcriber" where
  "add_to_context r s =
     (let appended = recent_transcriptions s @ [r]
      in (r, s\<lparr>recent_transcriptions :=
                 (if length appended > context_window
                  then last_entries context_window appended else appended)\<rparr>))"

definition polish_transcription ::
    "polish_outcome \<Rightarrow> string \<Rightarrow> string \<Rightarrow> string \<Rightarrow> transcriber
       \<Rightarrow> TranscriptionResult \<times> transcriber" where
  "polish_transcription oc tx lang ts s =
     (case oc of
        CallRaises e \<Rightarrow> (make_result lang tx [] ts, s)
      | ResponseNotObject \<Rightarrow> (make_result lang tx [] ts, s)
      | ResponseObject v \<Rightarrow>
          add_to_context (make_result lang tx (case v of None \<Rightarrow> [] | Some t \<Rightarrow> t) ts) s
      | ResponseMalformed m \<Rightarrow>
          add_to_context (make_result lang tx (case m of Some t \<Rightarrow> t | None \<Rightarrow> []) ts) s)"

text \<open>\<^verbatim>\<open>_polish_processor\<close>, run from the head of its loop to its next suspension:
  it leaves the loop when \<^verbatim>\<open>is_running\<close> is false, waits on an empty queue, leaves
  on the sentinel \<^verbatim>\<open>None\<close>, and otherwise takes the first item and suspends in the
  call of the service.\<close>

definition polish_took :: "transcriber \<Rightarrow> transcriber" where
  "polish_took s =
     (case polish_queue s of
        [] \<Rightarrow> s\<lparr>polish_task := Waiting\<rparr>
      | None # q \<Rightarrow> s\<lparr>polish_queue := q, polish_task := Done\<rparr>
      | Some item # q \<Rightarrow> s\<lparr>polish_queue := q, polish_task := InFlight item\<rparr>)"

definition polish_processor :: "transcriber \<Rightarrow> transcriber" where
  "polish_processor s =
     (if \<not> is_running s then s\<lparr>polish_task := Done\<rparr> else polish_took s)"

text \<open>The call for \<open>item\<close> comes back with outcome \<open>oc\<close>: the result is built and passed
  to the transcription callback, and the loop goes round.\<close>

definition polish_complete :: "polish_outcome \<Rightarrow> polish_item \<Rightarrow> transcriber \<Rightarrow> transcriber" where
  "polish_complete oc item s =
     (case polish_transcription oc (item_text item) (item_language item) (item_timestamp item) s of
        (r, s1) \<Rightarrow> polish_processor (emit r s1))"

text \<open>The scheduler resumes the task once.\<close>

definition resume_task :: "polish_outcome \<Rightarrow> transcriber \<Rightarrow> transcriber" where
  "resume_task oc s =
     (case polish_task s of
        NotCreated \<Rightarrow> s
      | AtLoopHead \<Rightarrow> polish_processor s
      | Waiting \<Rightarrow> polish_took s
      | InFlight item \<Rightarrow> polish_complete oc item s
      | Done \<Rightarrow> s)"

text \<open>\<^verbatim>\<open>await self.polish_task\<close> in \<^verbatim>\<open>stop\<close>: the task is resumed until it is
  finished. \<^verbatim>\<open>is_running\<close> is false by then, so a task woken in
  \<^verbatim>\<open>get()\<close> on a real item makes that one call and leaves at the loop head.\<close>

definition await_task :: "polish_outcome \<Rightarrow> transcriber \<Rightarrow> transcriber" where
  "await_task oc s =
     (case polish_task s of
        Waiting \<Rightarrow>
          (let s1 = polish_took s
           in case polish_task s1 of InFlight item \<Rightarrow> polish_complete oc item s1 | _ \<Rightarrow> s1)
      | _ \<Rightarrow> resume_task oc s)"

section \<open>RecognizerSession\<close>

text \<open>What opening a connection comes to: creating the connection object raises, starting
  it raises, \<^verbatim>\<open>connection.start(options)\<close> returns false, or it returns true.\<close>

datatype attempt_outcome =
    CreateRaises py_exception
  | StartRaises py_exception
  | StartFalse
  | StartTrue

definition start :: "attempt_outcome \<Rightarrow> transcriber \<Rightarrow> py_exception option \<times> transcriber" where
  "start oc s =
     (let s1 = s\<lparr>is_running := True, main_loop := True\<rparr>;
          opened = s1\<lparr>connection := True, conn_log := conn_log s1 @ [CreateCalled, StartCalled]\<rparr>
      in case oc of
           CreateRaises e \<Rightarrow>
             (Some e, report_error (start_error_prefix @ exc_message e)
                        (s1\<lparr>conn_log := conn_log s1 @ [CreateCalled]\<rparr>))
         | StartRaises e \<Rightarrow>
             (Some e, report_error (start_error_prefix @ exc_message e) opened)
         | StartFalse \<Rightarrow>
             (Some (Raise Exception ''Failed to connect to Deepgram''),
              report_error (start_error_prefix @ ''Failed to connect to Deepgram'') opened)
         | StartTrue \<Rightarrow> (None, opened\<lparr>polish_task := AtLoopHead\<rparr>))"

definition stop :: "polish_outcome \<Rightarrow> transcriber \<Rightarrow> transcriber" where
  "stop oc s =
     (let s1 = s\<lparr>is_running := False, is_reconnecting := False\<rparr>;
          s2 = (if connection s1
                then s1\<lparr>connection := False, conn_log := conn_log s1 @ [Finished]\<rparr> else s1)
      in if polish_task s2 \<noteq> NotCreated
         then await_task oc (s2\<lparr>polish_queue := polish_queue s2 @ [None]\<rparr>)
         else s2)"

definition reconnect_result :: "clock \<Rightarrow> TranscriptionResult" where
  "reconnect_result clk =
     \<lparr> detected_language = ''system'', original_text = ''[Reconnected]'',
       chinese_translation = reconnected_translation, timestamp = now_hms clk,
       is_final = True \<rparr>"

datatype loop_exit = Continue | Return | Break

text \<open>One round of the \<^verbatim>\<open>while\<close> loop of \<^verbatim>\<open>_reconnect\<close>.\<close>

definition reconnect_attempt :: "attempt_outcome \<Rightarrow> clock \<Rightarrow> transcriber \<Rightarrow> transcriber \<times> loop_exit" where
  "reconnect_attempt oc clk s =
     (let s1 = s\<lparr>reconnect_attempts := reconnect_attempts s + 1\<rparr>;
          s2 = (if connection s1
                then s1\<lparr>connection := False, conn_log := conn_log s1 @ [Finished]\<rparr> else s1);
          s3 = s2\<lparr>conn_log := conn_log s2 @ [Slept reconnect_delay]\<rparr>;
          opened = s3\<lparr>connection := True, conn_log := conn_log s3 @ [CreateCalled, StartCalled]\<rparr>;
          failed = (\<lambda>e t.
             if reconnect_attempts t \<ge> max_reconnect_attempts
             then ((report_error (reconnect_error_prefix @ exc_message e) t)\<lparr>is_running := False\<rparr>,
                   Break)
             else (t, Continue))
      in case oc of
           StartTrue \<Rightarrow>
             (emit (reconnect_result clk)
                (opened\<lparr>reconnect_attempts := 0, is_reconnecting := False\<rparr>), Return)
         | StartFalse \<Rightarrow> failed (Raise Exception ''Failed to reconnect'') opened
         | StartRaises e \<Rightarrow> failed e opened
         | CreateRaises e \<Rightarrow> failed e (s3\<lparr>conn_log := conn_log s3 @ [CreateCalled]\<rparr>))"

text \<open>The loop; \<open>env k\<close> is what the attempt that raises the counter to \<open>k\<close> comes to.\<close>

function reconnect_loop :: "(nat \<Rightarrow> attempt_outcome) \<Rightarrow> clock \<Rightarrow> transcriber \<Rightarrow> transcriber" where
  "reconnect_loop env clk s =
     (if is_running s \<and> reconnect_attempts s < max_reconnect_attempts then
        (case reconnect_attempt (env (Suc (reconnect_attempts s))) clk s of
           (s', Continue) \<Rightarrow> reconnect_loop env clk s'
         | (s', Return) \<Rightarrow> s'
         | (s', Break) \<Rightarrow> s'\<lparr>is_reconnecting := False\<rparr>)
      else s\<lparr>is_reconnecting := False\<rparr>)"
  by pat_completeness auto
termination
  by (relation "measure (\<lambda>(env, clk, s). max_reconnect_attempts - reconnect_attempts s)")
     (auto simp: reconnect_attempt_def Let_def split: attempt_outcome.splits if_splits)

declare reconnect_loop.simps [simp del]

definition reconnect :: "(nat \<Rightarrow> attempt_outcome) \<Rightarrow> clock \<Rightarrow> transcriber \<Rightarrow> transcriber" where
  "reconnect env clk s =
     (if is_reconnecting s \<or> \<not> is_running s then s
      else reconnect_loop env clk (s\<lparr>is_reconnecting := True\<rparr>))"

text \<open>\<^verbatim>\<open>send_audio\<close>; \<open>raises\<close> is the message of the exception of
  \<^verbatim>\<open>connection.send\<close>, if it raises.\<close>

definition send_audio :: "string option \<Rightarrow> bytes \<Rightarrow> transcriber \<Rightarrow> transcriber" where
  "send_audio raises audio_data s =
     (if connection s \<and> is_running s \<and> connection_ready s then
        (case raises of
           None \<Rightarrow> s\<lparr>conn_log := conn_log s @ [Sent audio_data]\<rparr>
         | Some e \<Rightarrow> report_error (send_error_prefix @ e) s)
      else s)"

definition on_open :: "transcriber \<Rightarrow> transcriber" where
  "on_open s = s\<lparr>connection_ready := True\<rparr>"

text \<open>\<^verbatim>\<open>_on_error\<close> and \<^verbatim>\<open>_on_close\<close> have the same body: the connection is no
  longer ready, and a \<^verbatim>\<open>_reconnect\<close> coroutine is handed to the main loop when the
  session is running and no reconnection is under way. The handler does not run it.\<close>

definition on_close :: "transcriber \<Rightarrow> transcriber" where
  "on_close s =
     (let s1 = s\<lparr>connection_ready := False\<rparr>
      in if is_running s1 \<and> main_loop s1 \<and> \<not> is_reconnecting s1
         then s1\<lparr>scheduled_reconnects := scheduled_reconnects s1 + 1\<rparr> else s1)"

definition on_error :: "transcriber \<Rightarrow> transcriber" where
  "on_error s = on_close s"

text \<open>The main loop runs the scheduled coroutines. The first one runs
  \<^verbatim>\<open>_reconnect\<close>; the others, scheduled before it ran, run while it sleeps and
  return at its guard (\<^verbatim>\<open>is_reconnecting\<close> is set), or find the state in which the
  first one did nothing.\<close>

definition reconnect_task :: "(nat \<Rightarrow> attempt_outcome) \<Rightarrow> clock \<Rightarrow> transcriber \<Rightarrow> transcriber" where
  "reconnect_task env clk s =
     (if scheduled_reconnects s = 0 then s
      else reconnect env clk (s\<lparr>scheduled_reconnects := 0\<rparr>))"

section \<open>AudioNormalizer: the audio callback\<close>

text \<open>
  \<^verbatim>\<open>MacSystemAudioCapture.audio_callback\<close> of \<^verbatim>\<open>src/audio_capture.py\<close>. An array is
  one-dimensional, \<open>Array1 xs\<close>, or two-dimensional, \<open>Array2 c rows\<close> with \<open>c\<close> columns
  (channels) and one row per frame. The samples are of any type: the operations numpy and
  scipy do on them are the fields of \<open>numpy\<close>, namely the mean of one row
  (\<^verbatim>\<open>mean(axis=1)\<close>), the product with 32767, the conversion \<^verbatim>\<open>astype(np.int16)\<close>
  and \<^verbatim>\<open>scipy.signal.resample_poly(x, up=1, down=3)\<close>. \<open>ravel\<close> lists the elements in
  row order, as \<^verbatim>\<open>tobytes\<close> does; each 16-bit sample is two bytes, low byte first.
\<close>

datatype 'a ndarray = Array1 "'a list" | Array2 nat "'a list list"

fun ravel :: "'a ndarray \<Rightarrow> 'a list" where
  "ravel (Array1 xs) = xs"
| "ravel (Array2 c rows) = concat rows"

fun elementwise :: "('a \<Rightarrow> 'b) \<Rightarrow> 'a ndarray \<Rightarrow> 'b ndarray" where
  "elementwise f (Array1 xs) = Array1 (map f xs)"
| "elementwise f (Array2 c rows) = Array2 c (map (map f) rows)"

record 'a numpy =
  np_mean :: "'a list \<Rightarrow> 'a"
  np_times_32767 :: "'a \<Rightarrow> 'a"
  np_astype_int16 :: "'a \<Rightarrow> 16 word"
  resample_poly :: "'a ndarray \<Rightarrow> 'a ndarray"

record capture =
  sample_rate :: nat
  is_recording :: bool
  device_sample_rate :: "nat option"
  user_audio_callback :: bool
  audio_queue :: "bytes list"
  delivered_audio :: "bytes list"

definition tobytes :: "16 word ndarray \<Rightarrow> bytes" where
  "tobytes a = concat (map (\<lambda>w. [ucast w, ucast (drop_bit 8 w)]) (ravel a))"

text \<open>The local \<^verbatim>\<open>audio_int16\<close>: two columns are averaged row by row; the array is
  resampled when the device runs at 48000 Hz and the target rate is 16000 Hz
  (\<open>device_sample_rate\<close> is \<open>None\<close> until the capture loop has set the attribute); every
  element is multiplied by 32767 and converted.\<close>

definition audio_int16 :: "'a numpy \<Rightarrow> capture \<Rightarrow> 'a ndarray \<Rightarrow> 16 word ndarray" where
  "audio_int16 np s indata =
     (let mono = (case indata of
                    Array2 c rows \<Rightarrow> if c = 2 then Array1 (map (np_mean np) rows) else indata
                  | Array1 xs \<Rightarrow> indata);
          resampled = (if device_sample_rate s = Some 48000 \<and> sample_rate s = 16000
                       then resample_poly np mono else mono)
      in elementwise (\<lambda>x. np_astype_int16 np (np_times_32767 np x)) resampled)"

definition audio_callback :: "'a numpy \<Rightarrow> 'a ndarray \<Rightarrow> capture \<Rightarrow> capture" where
  "audio_callback np indata s =
     (if is_recording s then
        (let pcm = tobytes (audio_int16 np s indata);
             s1 = s\<lparr>audio_queue := audio_queue s @ [pcm]\<rparr>
         in if user_audio_callback s1
            then s1\<lparr>delivered_audio := delivered_audio s1 @ [pcm]\<rparr> else s1)
      else s)"

section \<open>Events of a session\<close>

text \<open>Everything that runs on the main loop between two suspensions, as one event.\<close>

datatype event =
    SetTranscriptionCallback
  | SetErrorCallback
  | Start attempt_outcome
  | Stop polish_outcome
  | ConnOpened
  | ConnClosed
  | ConnError
  | ReconnectTask "nat \<Rightarrow> attempt_outcome" clock
  | Transcript clock "live_result option"
  | TaskResumed polish_outcome
  | SendAudio "string option" bytes

fun apply_event :: "event \<Rightarrow> transcriber \<Rightarrow> transcriber" where
  "apply_event SetTranscriptionCallback s = set_transcription_callback s"
| "apply_event SetErrorCallback s = set_error_callback s"
| "apply_event (Start oc) s = snd (start oc s)"
| "apply_event (Stop oc) s = stop oc s"
| "apply_event ConnOpened s = on_open s"
| "apply_event ConnClosed s = on_close s"
| "apply_event ConnError s = on_error s"
| "apply_event (ReconnectTask env clk) s = reconnect_task env clk s"
| "apply_event (Transcript clk result) s = on_transcript clk result s"
| "apply_event (TaskResumed oc) s = resume_task oc s"
| "apply_event (SendAudio raises audio_data) s = send_audio raises audio_data s"

definition run :: "event list \<Rightarrow> transcriber \<Rightarrow> transcriber" where
  "run evs s = fold apply_event evs s"

section \<open>Orchestrator: the display callback of main.py\<close>

record display_update =
  shown_original :: string
  shown_chinese :: string
  shown_duration :: real

record app =
  subtitle_display :: bool
  last_chinese_translation :: string
  shown :: "display_update list"

text \<open>\<^verbatim>\<open>DeepgramLiveSubtitle._on_transcription\<close>; \<open>shown\<close> lists the calls of
  \<^verbatim>\<open>subtitle_display.update_subtitle\<close>.\<close>

definition on_transcription :: "TranscriptionResult \<Rightarrow> app \<Rightarrow> app" where
  "on_transcription r a =
     (if \<not> subtitle_display a then a
      else if is_final r \<and> chinese_translation r \<noteq> [] then
        a\<lparr>last_chinese_translation := chinese_translation r,
          shown := shown a @ [\<lparr> shown_original = original_text r,
                                 shown_chinese = chinese_translation r,
                                 shown_duration = 5 \<rparr>]\<rparr>
      else if \<not> is_final r then
        a\<lparr>shown := shown a @ [\<lparr> shown_original = original_text r,
                                 shown_chinese = last_chinese_translation a,
                                 shown_duration = 2 \<rparr>]\<rparr>
      else a)"

text \<open>The callback applied to the results of a session, in order.\<close>

definition deliver :: "TranscriptionResult list \<Rightarrow> app \<Rightarrow> app" where
  "deliver rs a = fold on_transcription rs a"

text \<open>The translation of the latest result of \<open>rs\<close> that is final and has one, \<open>initial\<close>
  when there is none.\<close>

definition last_known :: "string \<Rightarrow> TranscriptionResult list \<Rightarrow> string" where
  "last_known initial rs =
     (let translated = filter (\<lambda>r. is_final r \<and> chinese_translation r \<noteq> []) rs
      in if translated = [] then initial else chinese_translation (last translated))"

section \<open>Sample inputs\<close>

text \<open>A transcript event with one alternative and no language list, a clock reading, and
  a session that was configured, started and opened, with its processor waiting on the
  empty queue.\<close>

definition fragment :: "string \<Rightarrow> bool \<Rightarrow> live_result" where
  "fragment tr fin =
     \<lparr> alternatives = [\<lparr> transcript = tr, languages = None \<rparr>], lr_is_final = fin \<rparr>"

definition at_time :: "real \<Rightarrow> clock" where
  "at_time t = \<lparr> now_ts = t, now_hms = ''12:00:00'' \<rparr>"

definition started_session :: "bool \<Rightarrow> transcriber" where
  "started_session interim =
     run [SetTranscriptionCallback, SetErrorCallback, Start StartTrue, ConnOpened,
          TaskResumed (CallRaises [])]
       (init_transcriber ''en'' interim)"

definition started_app :: app where
  "started_app = \<lparr> subtitle_display = True, last_chinese_translation = [], shown = [] \<rparr>"

text \<open>The started session after the interim fragment "hel" was queued and taken by the
  processor, whose call of the polishing service is under way.\<close>

definition busy_session :: transcriber where
  "busy_session =
     run [Transcript (at_time 100) (Some (fragment ''hel'' False)), TaskResumed (CallRaises [])]
       (started_session True)"

text \<open>The busy session after the final fragment "hello world." was queued behind the
  call under way.\<close>

definition backlog_session :: transcriber where
  "backlog_session =
     run [Transcript (at_time 100.2) (Some (fragment ''hello world.'' True))] busy_session"

text \<open>A stand-in for the numeric library on real samples: the mean of a row, the product,
  truncation toward zero, and a resampler that keeps every third sample; a capture that is
  recording from a device of the given rate.\<close>

fun decimate3 :: "'a list \<Rightarrow> 'a list" where
  "decimate3 (x # y # z # xs) = x # decimate3 xs"
| "decimate3 (x # xs) = [x]"
| "decimate3 [] = []"

definition toward_zero :: "real \<Rightarrow> int" where
  "toward_zero x = (if 0 \<le> x then \<lfloor>x\<rfloor> else \<lceil>x\<rceil>)"

definition sample_numpy :: "real numpy" where
  "sample_numpy =
     \<lparr> np_mean = (\<lambda>row. sum_list row / real (length row)),
       np_times_32767 = (\<lambda>x. x * 32767),
       np_astype_int16 = (\<lambda>x. word_of_int (toward_zero x)),
       resample_poly = (\<lambda>a. case a of Array1 xs \<Rightarrow> Array1 (decimate3 xs)
                              | Array2 c rows \<Rightarrow> Array2 c (decimate3 rows)) \<rparr>"

definition recording :: "nat \<Rightarrow> capture" where
  "recording rate =
     \<lparr> sample_rate = 16000, is_recording = True, device_sample_rate = Some rate,
       user_audio_callback = True, audio_queue = [], delivered_audio = [] \<rparr>"

section \<open>Properties of the context window\<close>

text \<open>\<open>appended_with_cap old new\<close>: \<open>new\<close> is \<open>old\<close> with one entry added at the end,
  cut from the front to 40 entries. \<open>translated oc\<close>: the call of the polishing service
  returned and its answer was decoded or searched (the end of the \<^verbatim>\<open>try\<close> block was
  reached).\<close>

definition appended_with_cap :: "'a list \<Rightarrow> 'a list \<Rightarrow> bool" where
  "appended_with_cap old new =
     (new \<noteq> [] \<and> new = drop (Suc (length old) - 40) (old @ [last new]))"

definition translated :: "polish_outcome \<Rightarrow> bool" where
  "translated oc =
     (case oc of ResponseObject v \<Rightarrow> True | ResponseMalformed m \<Rightarrow> True | _ \<Rightarrow> False)"

section \<open>Properties of the connection log\<close>

text \<open>\<open>delayed_opens es\<close>: every creation of a connection in \<open>es\<close> comes directly after
  a sleep of 2 seconds. \<open>attempt_events\<close> lists the calls one round of the reconnection
  loop makes.\<close>

fun opens_after :: "conn_event option \<Rightarrow> conn_event list \<Rightarrow> bool" where
  "opens_after previous [] = True"
| "opens_after previous (e # es) =
     ((e = CreateCalled \<longrightarrow> previous = Some (Slept 2)) \<and> opens_after (Some e) es)"

definition delayed_opens :: "conn_event list \<Rightarrow> bool" where
  "delayed_opens es = opens_after None es"

definition attempt_events :: "bool \<Rightarrow> attempt_outcome \<Rightarrow> conn_event list" where
  "attempt_events had_connection oc =
     (if had_connection then [Finished] else []) @ [Slept 2, CreateCalled] @
     (case oc of CreateRaises e \<Rightarrow> [] | _ \<Rightarrow> [StartCalled])"


section \<open>Facts about the transcript handler\<close>

lemma started_session_eq:
  "started_session interim =
     \<lparr> language = ''en'', interim_results = interim, connection = True,
       is_running = True, connection_ready = True, main_loop = True,
       reconnect_attempts = 0, is_reconnecting = False,
       transcription_callback = True, error_callback = True,
       recent_transcriptions = [], pending_text = [], last_translation_time = 0,
       polish_queue = [], polish_task = Waiting, scheduled_reconnects = 0,
       emitted = [], errors = [], conn_log = [CreateCalled, StartCalled] \<rparr>"
  by (simp add: started_session_def run_def init_transcriber_def set_transcription_callback_def
      set_error_callback_def start_def on_open_def resume_task_def polish_processor_def
      polish_took_def Let_def)

lemma on_transcript_final:
  assumes "alternatives res = alt # alts" "transcript alt \<noteq> []" "lr_is_final res" "main_loop s"
  shows "on_transcript clk (Some res) s =
     s\<lparr>pending_text := [], last_translation_time := now_ts clk,
       polish_queue := polish_queue s @
         [Some \<lparr> item_text = transcript alt, item_language = detected_lang (language s) alt,
                 item_timestamp = now_hms clk \<rparr>]\<rparr>"
  using assms by (simp add: on_transcript_def queue_for_polish_def Let_def)

lemma on_transcript_empty:
  assumes "alternatives res = alt # alts" "transcript alt = []"
  shows "on_transcript clk (Some res) s = s"
  using assms by (simp add: on_transcript_def)

lemma on_transcript_interim:
  assumes "alternatives res = alt # alts" "transcript alt \<noteq> []" "\<not> lr_is_final res"
    "interim_results s"
  shows "on_transcript clk (Some res) s =
     (let s2 = emit \<lparr> detected_language = detected_lang (language s) alt,
                       original_text = transcript alt, chinese_translation = [],
                       timestamp = now_hms clk, is_final = False \<rparr>
                 (s\<lparr>pending_text := transcript alt\<rparr>)
      in if 1 \<le> now_ts clk - last_translation_time s
         then (if main_loop s
               then s2\<lparr>last_translation_time := now_ts clk,
                       polish_queue := polish_queue s @
                         [Some \<lparr> item_text = transcript alt,
                                 item_language = detected_lang (language s) alt,
                                 item_timestamp = now_hms clk \<rparr>]\<rparr>
               else s2\<lparr>last_translation_time := now_ts clk\<rparr>)
         else s2)"
  using assms
  by (simp add: on_transcript_def queue_for_polish_def Let_def emit_def translation_threshold_def)

section \<open>Claims about the aggregator\<close>

text \<open>
  C1. As stated (every fragment that is final or arrives with interim mode disabled is
  treated as final, empty ones included) the claim fails: an empty fragment returns before
  any state is touched, and a fragment that is not final is ignored when interim mode is
  disabled. What holds: every final fragment with a non-empty transcript, in interim mode
  or not, clears the pending text and, on a started session, puts its text on the polish
  queue whatever the time since the last submission; an empty fragment changes nothing.
\<close>

theorem final_fragment_submitted:
  assumes "alternatives res = alt # alts"
  shows "(transcript alt \<noteq> [] \<and> lr_is_final res \<and> main_loop s \<longrightarrow>
            pending_text (on_transcript clk (Some res) s) = [] \<and>
            polish_queue (on_transcript clk (Some res) s) =
              polish_queue s @ [Some \<lparr> item_text = transcript alt,
                                        item_language = detected_lang (language s) alt,
                                        item_timestamp = now_hms clk \<rparr>]) \<and>
         (transcript alt = [] \<longrightarrow> on_transcript clk (Some res) s = s)"
  using assms by (simp add: on_transcript_final on_transcript_empty)

theorem final_fragment_submitted_witness:
  "alternatives (fragment ''hello world.'' True) =
     [\<lparr> transcript = ''hello world.'', languages = None \<rparr>] \<and>
   main_loop (started_session True) \<and>
   pending_text (on_transcript (at_time 3) (Some (fragment ''hello world.'' True))
                   (started_session True)) = [] \<and>
   polish_queue (on_transcript (at_time 3) (Some (fragment ''hello world.'' True))
                   (started_session True)) =
     [Some \<lparr> item_text = ''hello world.'', item_language = ''en'',
             item_timestamp = ''12:00:00'' \<rparr>] \<and>
   on_transcript (at_time 3) (Some (fragment [] True)) (started_session True) =
     started_session True"
  using final_fragment_submitted [where res = "fragment ''hello world.'' True"
          and alt = "\<lparr> transcript = ''hello world.'', languages = None \<rparr>" and alts = "[]"
          and s = "started_session True" and clk = "at_time 3"]
        final_fragment_submitted [where res = "fragment [] True"
          and alt = "\<lparr> transcript = [], languages = None \<rparr>" and alts = "[]"
          and s = "started_session True" and clk = "at_time 3"]
  by (simp add: fragment_def started_session_eq at_time_def detected_lang_def)

text \<open>
  C1, the failing inputs. After the interim fragment "hel", an empty final fragment leaves
  the pending text "hel" in place and the queue as it was; with interim mode disabled, the
  non-final fragment "hello" is not put on the queue.
\<close>

theorem empty_final_fragment_counterexample:
  "pending_text (on_transcript (at_time 100.5) (Some (fragment [] True))
      (on_transcript (at_time 100) (Some (fragment ''hel'' False)) (started_session True)))
     = ''hel'' \<and>
   polish_queue (on_transcript (at_time 100.5) (Some (fragment [] True))
      (on_transcript (at_time 100) (Some (fragment ''hel'' False)) (started_session True)))
     = polish_queue (on_transcript (at_time 100) (Some (fragment ''hel'' False))
          (started_session True)) \<and>
   polish_queue (on_transcript (at_time 100) (Some (fragment ''hello'' False))
      (started_session False)) = []"
  by (simp add: started_session_eq on_transcript_def fragment_def at_time_def emit_def
      queue_for_polish_def translation_threshold_def detected_lang_def Let_def)

text \<open>
  C2. For a fragment that is processed (one alternative at least, a non-empty transcript)
  on a started session: an interim fragment in interim mode is put on the polish queue
  exactly when at least 1.0 second has passed since \<open>last_translation_time\<close>, the time of
  the last submission; the time is set to the clock reading when the fragment is submitted
  and kept when it is not; a final fragment is submitted, and the time set, whatever the
  time that has passed.
\<close>

theorem interim_throttle:
  assumes "alternatives res = alt # alts" "transcript alt \<noteq> []" "main_loop s"
  shows "(interim_results s \<and> \<not> lr_is_final res \<and>
            1 \<le> now_ts clk - last_translation_time s \<longrightarrow>
            polish_queue (on_transcript clk (Some res) s) =
              polish_queue s @ [Some \<lparr> item_text = transcript alt,
                                        item_language = detected_lang (language s) alt,
                                        item_timestamp = now_hms clk \<rparr>] \<and>
            last_translation_time (on_transcript clk (Some res) s) = now_ts clk) \<and>
         (interim_results s \<and> \<not> lr_is_final res \<and>
            now_ts clk - last_translation_time s < 1 \<longrightarrow>
            polish_queue (on_transcript clk (Some res) s) = polish_queue s \<and>
            last_translation_time (on_transcript clk (Some res) s) = last_translation_time s) \<and>
         (lr_is_final res \<longrightarrow>
            polish_queue (on_transcript clk (Some res) s) =
              polish_queue s @ [Some \<lparr> item_text = transcript alt,
                                        item_language = detected_lang (language s) alt,
                                        item_timestamp = now_hms clk \<rparr>] \<and>
            last_translation_time (on_transcript clk (Some res) s) = now_ts clk)"
  using assms by (simp add: on_transcript_final on_transcript_interim emit_def Let_def)

text \<open>The scenario of three fragments within 0.3 s of each other: "hel" (interim, the
  first submission), "hello world" (interim, held back), "hello world." (final,
  submitted).\<close>

theorem interim_throttle_witness:
  "polish_queue (on_transcript (at_time 100) (Some (fragment ''hel'' False))
       (started_session True)) =
     [Some \<lparr> item_text = ''hel'', item_language = ''en'', item_timestamp = ''12:00:00'' \<rparr>] \<and>
   last_translation_time (on_transcript (at_time 100) (Some (fragment ''hel'' False))
       (started_session True)) = 100 \<and>
   polish_queue (on_transcript (at_time 100.3) (Some (fragment ''hello world'' False))
       ((started_session True)\<lparr>last_translation_time := 100\<rparr>)) = [] \<and>
   last_translation_time (on_transcript (at_time 100.3) (Some (fragment ''hello world'' False))
       ((started_session True)\<lparr>last_translation_time := 100\<rparr>)) = 100 \<and>
   polish_queue (on_transcript (at_time 100.6) (Some (fragment ''hello world.'' True))
       ((started_session True)\<lparr>last_translation_time := 100\<rparr>)) =
     [Some \<lparr> item_text = ''hello world.'', item_language = ''en'',
             item_timestamp = ''12:00:00'' \<rparr>] \<and>
   last_translation_time (on_transcript (at_time 100.6) (Some (fragment ''hello world.'' True))
       ((started_session True)\<lparr>last_translation_time := 100\<rparr>)) = 100.6"
  using interim_throttle [where res = "fragment ''hel'' False"
          and alt = "\<lparr> transcript = ''hel'', languages = None \<rparr>" and alts = "[]"
          and s = "started_session True" and clk = "at_time 100"]
        interim_throttle [where res = "fragment ''hello world'' False"
          and alt = "\<lparr> transcript = ''hello world'', languages = None \<rparr>" and alts = "[]"
          and s = "(started_session True)\<lparr>last_translation_time := 100\<rparr>"
          and clk = "at_time 100.3"]
        interim_throttle [where res = "fragment ''hello world.'' True"
          and alt = "\<lparr> transcript = ''hello world.'', languages = None \<rparr>" and alts = "[]"
          and s = "(started_session True)\<lparr>last_translation_time := 100\<rparr>"
          and clk = "at_time 100.6"]
  by (simp add: fragment_def started_session_eq at_time_def detected_lang_def)

section \<open>Facts about the display callback\<close>

lemma on_transcription_interim:
  "subtitle_display a \<Longrightarrow> \<not> is_final r \<Longrightarrow>
     on_transcription r a =
       a\<lparr>shown := shown a @ [\<lparr> shown_original = original_text r,
                                 shown_chinese = last_chinese_translation a,
                                 shown_duration = 2 \<rparr>]\<rparr>"
  by (simp add: on_transcription_def)

lemma on_transcription_final:
  "subtitle_display a \<Longrightarrow> is_final r \<Longrightarrow> chinese_translation r \<noteq> [] \<Longrightarrow>
     on_transcription r a =
       a\<lparr>last_chinese_translation := chinese_translation r,
         shown := shown a @ [\<lparr> shown_original = original_text r,
                                 shown_chinese = chinese_translation r,
                                 shown_duration = 5 \<rparr>]\<rparr>"
  by (simp add: on_transcription_def)

lemma on_transcription_display: "subtitle_display (on_transcription r a) = subtitle_display a"
  by (simp add: on_transcription_def)

lemma deliver_snoc: "deliver (rs @ [r]) a = on_transcription r (deliver rs a)"
  by (simp add: deliver_def)

lemma deliver_display: "subtitle_display (deliver rs a) = subtitle_display a"
  by (induction rs rule: rev_induct) (simp_all add: deliver_snoc on_transcription_display, simp add: deliver_def)

lemma last_known_snoc:
  "last_known initial (rs @ [r]) =
     (if is_final r \<and> chinese_translation r \<noteq> [] then chinese_translation r
      else last_known initial rs)"
  by (simp add: last_known_def Let_def)

lemma deliver_last_known:
  "subtitle_display a \<Longrightarrow>
     last_chinese_translation (deliver rs a) = last_known (last_chinese_translation a) rs"
proof (induction rs rule: rev_induct)
  case Nil
  then show ?case by (simp add: deliver_def last_known_def)
next
  case (snoc r rs)
  then have d: "subtitle_display (deliver rs a)" by (simp add: deliver_display)
  show ?case
    using snoc d by (simp add: deliver_snoc last_known_snoc on_transcription_def)
qed

text \<open>
  C7. Every interim fragment processed in interim mode is passed to the transcription
  callback within the handler itself, as a result marked \<open>is_final = False\<close> whose own
  translation is empty; the display callback of main.py shows it for 2 seconds with
  \<open>last_chinese_translation\<close>, which after any history \<open>rs\<close> of delivered results is the
  translation of the latest final result that had one. Nothing is computed for the interim
  result: the stored translation and the translation context stay as they were.
\<close>

theorem interim_result_displayed:
  assumes "alternatives res = alt # alts" "transcript alt \<noteq> []" "\<not> lr_is_final res"
    "interim_results s" "transcription_callback s" "subtitle_display a"
  shows "emitted (on_transcript clk (Some res) s) =
           emitted s @ [\<lparr> detected_language = detected_lang (language s) alt,
                           original_text = transcript alt, chinese_translation = [],
                           timestamp = now_hms clk, is_final = False \<rparr>] \<and>
         pending_text (on_transcript clk (Some res) s) = transcript alt \<and>
         recent_transcriptions (on_transcript clk (Some res) s) = recent_transcriptions s \<and>
         shown (on_transcription (last (emitted (on_transcript clk (Some res) s))) (deliver rs a)) =
           shown (deliver rs a) @
             [\<lparr> shown_original = transcript alt,
                shown_chinese = last_known (last_chinese_translation a) rs,
                shown_duration = 2 \<rparr>] \<and>
         last_chinese_translation
             (on_transcription (last (emitted (on_transcript clk (Some res) s))) (deliver rs a)) =
           last_known (last_chinese_translation a) rs"
  using assms
  by (simp add: on_transcript_interim emit_def Let_def on_transcription_interim
      deliver_display deliver_last_known)

theorem interim_result_displayed_witness:
  "alternatives (fragment ''hel'' False) = [\<lparr> transcript = ''hel'', languages = None \<rparr>] \<and>
   interim_results (started_session True) \<and> transcription_callback (started_session True) \<and>
   subtitle_display started_app \<and>
   emitted (on_transcript (at_time 100) (Some (fragment ''hel'' False)) (started_session True)) =
     [\<lparr> detected_language = ''en'', original_text = ''hel'', chinese_translation = [],
        timestamp = ''12:00:00'', is_final = False \<rparr>] \<and>
   shown (on_transcription
            (last (emitted (on_transcript (at_time 100) (Some (fragment ''hel'' False))
                              (started_session True))))
            (deliver [make_result ''en'' ''hi'' ''ni hao'' ''11:59:59''] started_app)) =
     [\<lparr> shown_original = ''hi'', shown_chinese = ''ni hao'', shown_duration = 5 \<rparr>,
      \<lparr> shown_original = ''hel'', shown_chinese = ''ni hao'', shown_duration = 2 \<rparr>]"
  using interim_result_displayed [where res = "fragment ''hel'' False"
          and alt = "\<lparr> transcript = ''hel'', languages = None \<rparr>" and alts = "[]"
          and s = "started_session True" and clk = "at_time 100" and a = started_app
          and rs = "[make_result ''en'' ''hi'' ''ni hao'' ''11:59:59'']"]
  by (simp add: fragment_def started_session_eq at_time_def detected_lang_def started_app_def
      deliver_def on_transcription_def make_result_def last_known_def)

section \<open>Claims about the polish pipeline\<close>

lemma busy_session_eq:
  "busy_session =
     \<lparr> language = ''en'', interim_results = True, connection = True,
       is_running = True, connection_ready = True, main_loop = True,
       reconnect_attempts = 0, is_reconnecting = False,
       transcription_callback = True, error_callback = True,
       recent_transcriptions = [], pending_text = ''hel'', last_translation_time = 100,
       polish_queue = [],
       polish_task = InFlight \<lparr> item_text = ''hel'', item_language = ''en'',
                                 item_timestamp = ''12:00:00'' \<rparr>,
       scheduled_reconnects = 0,
       emitted = [\<lparr> detected_language = ''en'', original_text = ''hel'',
                    chinese_translation = [], timestamp = ''12:00:00'', is_final = False \<rparr>],
       errors = [], conn_log = [CreateCalled, StartCalled] \<rparr>"
  by (simp add: busy_session_def run_def started_session_eq on_transcript_def fragment_def
      at_time_def emit_def queue_for_polish_def translation_threshold_def detected_lang_def
      resume_task_def polish_took_def Let_def)

lemma polish_transcription_result:
  "fst (polish_transcription oc tx lang ts s) =
     make_result lang tx
       (case oc of ResponseObject (Some t) \<Rightarrow> t | ResponseMalformed (Some t) \<Rightarrow> t | _ \<Rightarrow> []) ts"
  by (simp add: polish_transcription_def add_to_context_def Let_def
      split: polish_outcome.splits option.splits)

lemma polish_transcription_state:
  "snd (polish_transcription oc tx lang ts s) =
     (case oc of
        CallRaises e \<Rightarrow> s
      | ResponseNotObject \<Rightarrow> s
      | _ \<Rightarrow> s\<lparr>recent_transcriptions :=
                 drop (Suc (length (recent_transcriptions s)) - 40)
                   (recent_transcriptions s @ [fst (polish_transcription oc tx lang ts s)])\<rparr>)"
  by (simp add: polish_transcription_def add_to_context_def Let_def last_entries_def
      context_window_def split: polish_outcome.splits option.splits)

lemma polish_processor_fields [simp]:
  "emitted (polish_processor s) = emitted s"
  "recent_transcriptions (polish_processor s) = recent_transcriptions s"
  "emitted (polish_took s) = emitted s"
  "recent_transcriptions (polish_took s) = recent_transcriptions s"
  by (simp_all add: polish_processor_def polish_took_def split: list.splits option.splits)

lemma polish_complete_emitted:
  "transcription_callback s \<Longrightarrow>
     emitted (polish_complete oc item s) =
       emitted s @ [fst (polish_transcription oc (item_text item) (item_language item)
                           (item_timestamp item) s)]"
  by (cases "polish_transcription oc (item_text item) (item_language item) (item_timestamp item) s")
     (auto simp: polish_complete_def emit_def polish_transcription_def add_to_context_def Let_def
        split: polish_outcome.splits)

text \<open>
  C4. When the call of the polishing service raises, \<^verbatim>\<open>_polish_transcription\<close> still
  returns a result with the submitted text, an empty translation and \<open>is_final = True\<close>,
  and the processor passes exactly that one result to the transcription callback; whatever
  the call comes to, one final result carrying the submitted text is emitted per submission.
\<close>

theorem polish_failure_passthrough:
  "fst (polish_transcription (CallRaises e) tx lang ts s) =
     \<lparr> detected_language = lang, original_text = tx, chinese_translation = [],
       timestamp = ts, is_final = True \<rparr> \<and>
   (polish_task s = InFlight item \<and> transcription_callback s \<longrightarrow>
      emitted (resume_task (CallRaises e) s) =
        emitted s @ [\<lparr> detected_language = item_language item, original_text = item_text item,
                        chinese_translation = [], timestamp = item_timestamp item,
                        is_final = True \<rparr>]) \<and>
   (polish_task s = InFlight item \<and> transcription_callback s \<longrightarrow>
      (\<exists>r. emitted (resume_task oc s) = emitted s @ [r] \<and> is_final r \<and>
           original_text r = item_text item))"
  by (simp add: resume_task_def polish_complete_emitted polish_transcription_result make_result_def)

theorem polish_failure_passthrough_witness:
  "polish_task busy_session =
     InFlight \<lparr> item_text = ''hel'', item_language = ''en'', item_timestamp = ''12:00:00'' \<rparr> \<and>
   transcription_callback busy_session \<and>
   emitted (resume_task (CallRaises ''timed out'') busy_session) =
     emitted busy_session @
       [\<lparr> detected_language = ''en'', original_text = ''hel'', chinese_translation = [],
          timestamp = ''12:00:00'', is_final = True \<rparr>]"
  using polish_failure_passthrough [where s = busy_session and e = "''timed out''"
          and item = "\<lparr> item_text = ''hel'', item_language = ''en'',
                         item_timestamp = ''12:00:00'' \<rparr>"]
  by (simp add: busy_session_eq)

text \<open>
  C10. The result of \<^verbatim>\<open>_polish_transcription\<close> has \<open>is_final = True\<close> whatever the
  call comes to, and so has the result the processor emits. The queue item holds text,
  language and timestamp only: an interim fragment that passes the throttle leaves the
  queue exactly as the same fragment marked final would, and the display callback shows
  the translated result for 5 seconds, as it does any final result.
\<close>

theorem polish_results_final:
  "is_final (fst (polish_transcription oc tx lang ts s)) \<and>
   (transcription_callback s \<longrightarrow>
      is_final (last (emitted (polish_complete oc item s)))) \<and>
   (alternatives res = alt # alts \<and> transcript alt \<noteq> [] \<and> \<not> lr_is_final res \<and>
    interim_results s \<and> main_loop s \<and> 1 \<le> now_ts clk - last_translation_time s \<longrightarrow>
      polish_queue (on_transcript clk (Some res) s) =
        polish_queue (on_transcript clk (Some (res\<lparr>lr_is_final := True\<rparr>)) s)) \<and>
   (subtitle_display a \<and> chinese_translation (fst (polish_transcription oc tx lang ts s)) \<noteq> [] \<longrightarrow>
      shown (on_transcription (fst (polish_transcription oc tx lang ts s)) a) =
        shown a @ [\<lparr> shown_original = tx,
                      shown_chinese = chinese_translation (fst (polish_transcription oc tx lang ts s)),
                      shown_duration = 5 \<rparr>])"
  by (simp add: polish_complete_emitted polish_transcription_result make_result_def
      on_transcript_interim on_transcript_final emit_def Let_def on_transcription_def)

theorem polish_results_final_witness:
  "alternatives (fragment ''hel'' False) = [\<lparr> transcript = ''hel'', languages = None \<rparr>] \<and>
   \<not> lr_is_final (fragment ''hel'' False) \<and>
   interim_results (started_session True) \<and> main_loop (started_session True) \<and>
   1 \<le> now_ts (at_time 100) - last_translation_time (started_session True) \<and>
   transcription_callback busy_session \<and> subtitle_display started_app \<and>
   polish_queue (on_transcript (at_time 100) (Some (fragment ''hel'' False)) (started_session True)) =
     polish_queue (on_transcript (at_time 100) (Some (fragment ''hel'' True)) (started_session True)) \<and>
   is_final (last (emitted (polish_complete (ResponseObject (Some ''ni hao''))
       \<lparr> item_text = ''hel'', item_language = ''en'', item_timestamp = ''12:00:00'' \<rparr>
       busy_session))) \<and>
   shown (on_transcription
            (fst (polish_transcription (ResponseObject (Some ''ni hao'')) ''hel'' ''en''
                    ''12:00:00'' busy_session)) started_app) =
     [\<lparr> shown_original = ''hel'', shown_chinese = ''ni hao'', shown_duration = 5 \<rparr>]"
  using polish_results_final [where res = "fragment ''hel'' False"
          and alt = "\<lparr> transcript = ''hel'', languages = None \<rparr>" and alts = "[]"
          and s = "started_session True" and clk = "at_time 100" and a = started_app
          and oc = "ResponseObject (Some ''ni hao'')" and tx = "''hel''" and lang = "''en''"
          and ts = "''12:00:00''"
          and item = "\<lparr> item_text = ''hel'', item_language = ''en'',
                         item_timestamp = ''12:00:00'' \<rparr>"]
        polish_results_final [where s = busy_session and a = started_app
          and oc = "ResponseObject (Some ''ni hao'')" and tx = "''hel''" and lang = "''en''"
          and ts = "''12:00:00''"
          and item = "\<lparr> item_text = ''hel'', item_language = ''en'',
                         item_timestamp = ''12:00:00'' \<rparr>"]
  by (simp add: fragment_def started_session_eq busy_session_eq at_time_def started_app_def
      polish_transcription_result make_result_def)

section \<open>Facts about the reconnection loop\<close>

lemma opens_after_any: "opens_after None ys \<Longrightarrow> opens_after p ys"
  by (cases ys) auto

lemma opens_after_append:
  "opens_after p xs \<Longrightarrow> opens_after None ys \<Longrightarrow> opens_after p (xs @ ys)"
  by (induction xs arbitrary: p) (auto simp: opens_after_any)

lemma delayed_opens_append:
  "delayed_opens xs \<Longrightarrow> delayed_opens ys \<Longrightarrow> delayed_opens (xs @ ys)"
  by (simp add: delayed_opens_def opens_after_append)

lemma attempt_events_delayed: "delayed_opens (attempt_events c oc)"
  by (cases oc; cases c; simp add: attempt_events_def delayed_opens_def)

lemma attempt_events_count: "count_list (attempt_events c oc) CreateCalled = 1"
  by (cases oc; cases c; simp add: attempt_events_def)

lemma reconnect_attempt_log:
  "conn_log (fst (reconnect_attempt oc clk s)) = conn_log s @ attempt_events (connection s) oc"
  by (simp add: reconnect_attempt_def Let_def attempt_events_def report_error_def emit_def
      reconnect_delay_def split: attempt_outcome.splits)

lemma reconnect_attempt_kept:
  "recent_transcriptions (fst (reconnect_attempt oc clk s)) = recent_transcriptions s"
  "error_callback (fst (reconnect_attempt oc clk s)) = error_callback s"
  "transcription_callback (fst (reconnect_attempt oc clk s)) = transcription_callback s"
  "connection_ready (fst (reconnect_attempt oc clk s)) = connection_ready s"
  by (simp_all add: reconnect_attempt_def Let_def report_error_def emit_def
      split: attempt_outcome.splits)

lemma reconnect_attempt_success:
  "snd (reconnect_attempt StartTrue clk s) = Return"
  "reconnect_attempts (fst (reconnect_attempt StartTrue clk s)) = 0"
  "is_running (fst (reconnect_attempt StartTrue clk s)) = is_running s"
  "is_reconnecting (fst (reconnect_attempt StartTrue clk s)) = False"
  "errors (fst (reconnect_attempt StartTrue clk s)) = errors s"
  "emitted (fst (reconnect_attempt StartTrue clk s)) =
     (if transcription_callback s then emitted s @ [reconnect_result clk] else emitted s)"
  by (simp_all add: reconnect_attempt_def Let_def emit_def)

lemma reconnect_attempt_retry:
  assumes "oc \<noteq> StartTrue" "Suc (reconnect_attempts s) < max_reconnect_attempts"
  shows "snd (reconnect_attempt oc clk s) = Continue"
    "reconnect_attempts (fst (reconnect_attempt oc clk s)) = Suc (reconnect_attempts s)"
    "is_running (fst (reconnect_attempt oc clk s)) = is_running s"
    "errors (fst (reconnect_attempt oc clk s)) = errors s"
    "emitted (fst (reconnect_attempt oc clk s)) = emitted s"
  using assms
  by (simp_all add: reconnect_attempt_def Let_def split: attempt_outcome.splits)

lemma reconnect_attempt_give_up:
  assumes "oc \<noteq> StartTrue" "max_reconnect_attempts \<le> Suc (reconnect_attempts s)"
  shows "snd (reconnect_attempt oc clk s) = Break"
    "reconnect_attempts (fst (reconnect_attempt oc clk s)) = Suc (reconnect_attempts s)"
    "is_running (fst (reconnect_attempt oc clk s)) = False"
    "emitted (fst (reconnect_attempt oc clk s)) = emitted s"
    "error_callback s \<Longrightarrow> \<exists>m. errors (fst (reconnect_attempt oc clk s)) =
        errors s @ [reconnect_error_prefix @ m]"
  using assms
  by (simp_all add: reconnect_attempt_def Let_def report_error_def split: attempt_outcome.splits)


lemma reconnect_loop_log:
  "\<exists>ys. conn_log (reconnect_loop env clk s) = conn_log s @ ys \<and> delayed_opens ys \<and>
        count_list ys CreateCalled \<le> max_reconnect_attempts - reconnect_attempts s"
proof (induction env clk s rule: reconnect_loop.induct)
  case (1 env clk s)
  show ?case
  proof (cases "is_running s \<and> reconnect_attempts s < max_reconnect_attempts")
    case False
    then show ?thesis by (subst reconnect_loop.simps) (auto simp: delayed_opens_def)
  next
    case True
    let ?oc = "env (Suc (reconnect_attempts s))"
    obtain s' ex where att: "reconnect_attempt ?oc clk s = (s', ex)" by force
    let ?b = "attempt_events (connection s) ?oc"
    have log: "conn_log s' = conn_log s @ ?b"
      using reconnect_attempt_log [of ?oc clk s] att by simp
    show ?thesis
    proof (cases ex)
      case Continue
      from "1.IH" [OF True att [symmetric, unfolded Continue] refl] Continue
      obtain ys where ys: "conn_log (reconnect_loop env clk s') = conn_log s' @ ys"
        "delayed_opens ys"
        "count_list ys CreateCalled \<le> max_reconnect_attempts - reconnect_attempts s'"
        by blast
      have n: "reconnect_attempts s' = Suc (reconnect_attempts s)"
        using att Continue
        by (auto simp: reconnect_attempt_def Let_def split: attempt_outcome.splits if_splits)
      have "reconnect_loop env clk s = reconnect_loop env clk s'"
        using True att Continue by (subst reconnect_loop.simps) simp
      then have "conn_log (reconnect_loop env clk s) = conn_log s @ (?b @ ys)"
        using ys log by simp
      moreover have "delayed_opens (?b @ ys)"
        using ys by (simp add: delayed_opens_append attempt_events_delayed)
      moreover have "count_list (?b @ ys) CreateCalled
          \<le> max_reconnect_attempts - reconnect_attempts s"
      proof -
        have "Suc (count_list ys CreateCalled) \<le> max_reconnect_attempts - reconnect_attempts s"
          using ys(3) n True by arith
        then show ?thesis by (simp add: attempt_events_count)
      qed
      ultimately show ?thesis by blast
    next
      case Return
      have "reconnect_loop env clk s = s'"
        using True att Return by (subst reconnect_loop.simps) simp
      then have "conn_log (reconnect_loop env clk s) = conn_log s @ ?b"
        using log by simp
      moreover have "count_list ?b CreateCalled \<le> max_reconnect_attempts - reconnect_attempts s"
        using True by (simp add: attempt_events_count Suc_le_eq)
      ultimately show ?thesis using attempt_events_delayed by blast
    next
      case Break
      have "reconnect_loop env clk s = s'\<lparr>is_reconnecting := False\<rparr>"
        using True att Break by (subst reconnect_loop.simps) simp
      then have "conn_log (reconnect_loop env clk s) = conn_log s @ ?b"
        using log by simp
      moreover have "count_list ?b CreateCalled \<le> max_reconnect_attempts - reconnect_attempts s"
        using True by (simp add: attempt_events_count Suc_le_eq)
      ultimately show ?thesis using attempt_events_delayed by blast
    qed
  qed
qed

lemma reconnect_loop_exhausted:
  assumes "is_running s" "reconnect_attempts s < max_reconnect_attempts"
    "\<forall>k. reconnect_attempts s < k \<and> k \<le> max_reconnect_attempts \<longrightarrow> env k \<noteq> StartTrue"
  shows "\<not> is_running (reconnect_loop env clk s) \<and>
         \<not> is_reconnecting (reconnect_loop env clk s) \<and>
         reconnect_attempts (reconnect_loop env clk s) = max_reconnect_attempts \<and>
         emitted (reconnect_loop env clk s) = emitted s \<and>
         (error_callback s \<longrightarrow>
            (\<exists>m. errors (reconnect_loop env clk s) = errors s @ [reconnect_error_prefix @ m])) \<and>
         (\<exists>ys. conn_log (reconnect_loop env clk s) = conn_log s @ ys \<and>
               count_list ys CreateCalled = max_reconnect_attempts - reconnect_attempts s)"
  using assms
proof (induction env clk s rule: reconnect_loop.induct)
  case (1 env clk s)
  let ?oc = "env (Suc (reconnect_attempts s))"
  have cond: "is_running s \<and> reconnect_attempts s < max_reconnect_attempts"
    using "1.prems" by simp
  have fail: "?oc \<noteq> StartTrue" using "1.prems" by simp
  obtain s' ex where att: "reconnect_attempt ?oc clk s = (s', ex)" by force
  have log: "conn_log s' = conn_log s @ attempt_events (connection s) ?oc"
    using reconnect_attempt_log [of ?oc clk s] att by simp
  show ?case
  proof (cases "Suc (reconnect_attempts s) < max_reconnect_attempts")
    case True
    have ex: "ex = Continue" using reconnect_attempt_retry(1) [OF fail True, of clk] att by simp
    have s': "reconnect_attempts s' = Suc (reconnect_attempts s)" "is_running s' = is_running s"
      "errors s' = errors s" "emitted s' = emitted s" "error_callback s' = error_callback s"
      using reconnect_attempt_retry [OF fail True, of clk] reconnect_attempt_kept [of ?oc clk s] att
      by simp_all
    have unfold: "reconnect_loop env clk s = reconnect_loop env clk s'"
      using cond att ex by (subst reconnect_loop.simps) simp
    have rest: "\<forall>k. reconnect_attempts s' < k \<and> k \<le> max_reconnect_attempts \<longrightarrow> env k \<noteq> StartTrue"
      using "1.prems"(3) s'(1) by auto
    have IH: "\<not> is_running (reconnect_loop env clk s') \<and>
         \<not> is_reconnecting (reconnect_loop env clk s') \<and>
         reconnect_attempts (reconnect_loop env clk s') = max_reconnect_attempts \<and>
         emitted (reconnect_loop env clk s') = emitted s' \<and>
         (error_callback s' \<longrightarrow>
            (\<exists>m. errors (reconnect_loop env clk s') = errors s' @ [reconnect_error_prefix @ m])) \<and>
         (\<exists>ys. conn_log (reconnect_loop env clk s') = conn_log s' @ ys \<and>
               count_list ys CreateCalled = max_reconnect_attempts - reconnect_attempts s')"
      using "1.IH" [OF cond att [symmetric, unfolded ex] refl] s' "1.prems"(1) True rest by simp
    then obtain ys where ys: "conn_log (reconnect_loop env clk s') = conn_log s' @ ys"
      "count_list ys CreateCalled = max_reconnect_attempts - reconnect_attempts s'" by blast
    have "conn_log (reconnect_loop env clk s) =
            conn_log s @ (attempt_events (connection s) ?oc @ ys)"
      using ys(1) log unfold by simp
    moreover have "count_list (attempt_events (connection s) ?oc @ ys) CreateCalled =
        max_reconnect_attempts - reconnect_attempts s"
      using ys(2) s'(1) True by (simp add: attempt_events_count)
    ultimately have "\<exists>zs. conn_log (reconnect_loop env clk s) = conn_log s @ zs \<and>
        count_list zs CreateCalled = max_reconnect_attempts - reconnect_attempts s" by blast
    then show ?thesis using IH unfold s' by simp
  next
    case False
    then have last: "max_reconnect_attempts \<le> Suc (reconnect_attempts s)" by simp
    have ex: "ex = Break" using reconnect_attempt_give_up(1) [OF fail last, of clk] att by simp
    have unfold: "reconnect_loop env clk s = s'\<lparr>is_reconnecting := False\<rparr>"
      using cond att ex by (subst reconnect_loop.simps) simp
    have s': "reconnect_attempts s' = Suc (reconnect_attempts s)" "\<not> is_running s'"
      "emitted s' = emitted s"
      using reconnect_attempt_give_up(2,3,4) [OF fail last, of clk] att by simp_all
    have err: "error_callback s \<longrightarrow> (\<exists>m. errors s' = errors s @ [reconnect_error_prefix @ m])"
      using reconnect_attempt_give_up(5) [OF fail last, of clk] att by simp
    have n: "Suc (reconnect_attempts s) = max_reconnect_attempts" using last cond by simp
    have "count_list (attempt_events (connection s) ?oc) CreateCalled =
        max_reconnect_attempts - reconnect_attempts s"
      using n by (simp add: attempt_events_count)
    then have "\<exists>zs. conn_log (reconnect_loop env clk s) = conn_log s @ zs \<and>
        count_list zs CreateCalled = max_reconnect_attempts - reconnect_attempts s"
      using log unfold by simp
    then show ?thesis using unfold s' err n by simp
  qed
qed

lemma reconnect_loop_success:
  assumes "is_running s" "reconnect_attempts s < k" "k \<le> max_reconnect_attempts"
    "env k = StartTrue"
    "\<forall>j. reconnect_attempts s < j \<and> j < k \<longrightarrow> env j \<noteq> StartTrue"
  shows "reconnect_attempts (reconnect_loop env clk s) = 0 \<and>
         is_running (reconnect_loop env clk s) \<and>
         \<not> is_reconnecting (reconnect_loop env clk s) \<and>
         errors (reconnect_loop env clk s) = errors s \<and>
         emitted (reconnect_loop env clk s) =
           (if transcription_callback s then emitted s @ [reconnect_result clk] else emitted s) \<and>
         (\<exists>ys. conn_log (reconnect_loop env clk s) = conn_log s @ ys \<and>
               count_list ys CreateCalled = k - reconnect_attempts s)"
  using assms
proof (induction env clk s rule: reconnect_loop.induct)
  case (1 env clk s)
  let ?oc = "env (Suc (reconnect_attempts s))"
  have cond: "is_running s \<and> reconnect_attempts s < max_reconnect_attempts"
    using "1.prems" by simp
  obtain s' ex where att: "reconnect_attempt ?oc clk s = (s', ex)" by force
  have log: "conn_log s' = conn_log s @ attempt_events (connection s) ?oc"
    using reconnect_attempt_log [of ?oc clk s] att by simp
  show ?case
  proof (cases "Suc (reconnect_attempts s) = k")
    case True
    then have oc: "?oc = StartTrue" using "1.prems" by simp
    have ex: "ex = Return" using reconnect_attempt_success(1) [of clk s] att oc by simp
    have unfold: "reconnect_loop env clk s = s'"
      using cond att ex by (subst reconnect_loop.simps) simp
    have "count_list (attempt_events (connection s) ?oc) CreateCalled = k - reconnect_attempts s"
      using True by (auto simp: attempt_events_count)
    then have "\<exists>zs. conn_log s' = conn_log s @ zs \<and>
        count_list zs CreateCalled = k - reconnect_attempts s"
      using log by simp
    then show ?thesis
      using unfold reconnect_attempt_success [of clk s] att oc "1.prems"(1) by simp
  next
    case False
    then have lt: "Suc (reconnect_attempts s) < k" using "1.prems"(2) by simp
    then have more: "Suc (reconnect_attempts s) < max_reconnect_attempts"
      using "1.prems"(3) by simp
    have fail: "?oc \<noteq> StartTrue" using "1.prems"(5) lt by simp
    have ex: "ex = Continue" using reconnect_attempt_retry(1) [OF fail more, of clk] att by simp
    have s': "reconnect_attempts s' = Suc (reconnect_attempts s)" "is_running s' = is_running s"
      "errors s' = errors s" "emitted s' = emitted s"
      "transcription_callback s' = transcription_callback s"
      using reconnect_attempt_retry [OF fail more, of clk] reconnect_attempt_kept [of ?oc clk s] att
      by simp_all
    have unfold: "reconnect_loop env clk s = reconnect_loop env clk s'"
      using cond att ex by (subst reconnect_loop.simps) simp
    have rest: "\<forall>j. reconnect_attempts s' < j \<and> j < k \<longrightarrow> env j \<noteq> StartTrue"
      using "1.prems"(5) s'(1) by auto
    have IH: "reconnect_attempts (reconnect_loop env clk s') = 0 \<and>
         is_running (reconnect_loop env clk s') \<and>
         \<not> is_reconnecting (reconnect_loop env clk s') \<and>
         errors (reconnect_loop env clk s') = errors s' \<and>
         emitted (reconnect_loop env clk s') =
           (if transcription_callback s' then emitted s' @ [reconnect_result clk] else emitted s') \<and>
         (\<exists>ys. conn_log (reconnect_loop env clk s') = conn_log s' @ ys \<and>
               count_list ys CreateCalled = k - reconnect_attempts s')"
      using "1.IH" [OF cond att [symmetric, unfolded ex] refl] s' "1.prems" lt rest by simp
    then obtain ys where ys: "conn_log (reconnect_loop env clk s') = conn_log s' @ ys"
      "count_list ys CreateCalled = k - reconnect_attempts s'" by blast
    have "conn_log (reconnect_loop env clk s) =
            conn_log s @ (attempt_events (connection s) ?oc @ ys)"
      using ys(1) log unfold by simp
    moreover have "count_list (attempt_events (connection s) ?oc @ ys) CreateCalled =
        k - reconnect_attempts s"
      using ys(2) s'(1) lt by (simp add: attempt_events_count)
    ultimately have "\<exists>zs. conn_log (reconnect_loop env clk s) = conn_log s @ zs \<and>
        count_list zs CreateCalled = k - reconnect_attempts s" by blast
    then show ?thesis using IH unfold s' by simp
  qed
qed

lemma send_audio_stopped: "\<not> is_running s \<Longrightarrow> send_audio raises audio_data s = s"
  by (simp add: send_audio_def)

section \<open>Claims about the recognizer session\<close>

text \<open>
  C3. A reconnection started on a running session whose attempt counter is 0 creates at
  most 5 connections, each directly after a sleep of 2 seconds. When the five attempts all
  fail, five connections were tried, the session is marked not running, one message
  is passed to the error callback, and \<^verbatim>\<open>send_audio\<close> then changes nothing. When
  attempt \<open>k\<close> (1 to 5) is the first to succeed, \<open>k\<close> connections were tried, the counter
  is back at 0, the session is still running and the synthetic "[Reconnected]" result is
  passed to the transcription callback.
\<close>

theorem reconnect_bounded:
  assumes "is_running s" "\<not> is_reconnecting s" "reconnect_attempts s = 0"
  shows "conn_log (reconnect env clk s) =
           conn_log s @ drop (length (conn_log s)) (conn_log (reconnect env clk s)) \<and>
         delayed_opens (drop (length (conn_log s)) (conn_log (reconnect env clk s))) \<and>
         count_list (drop (length (conn_log s)) (conn_log (reconnect env clk s))) CreateCalled \<le> 5 \<and>
         ((\<forall>k. 1 \<le> k \<and> k \<le> 5 \<longrightarrow> env k \<noteq> StartTrue) \<longrightarrow>
            count_list (drop (length (conn_log s)) (conn_log (reconnect env clk s))) CreateCalled = 5 \<and>
            \<not> is_running (reconnect env clk s) \<and>
            emitted (reconnect env clk s) = emitted s \<and>
            (error_callback s \<longrightarrow>
               (\<exists>m. errors (reconnect env clk s) = errors s @ [reconnect_error_prefix @ m])) \<and>
            send_audio raises audio_data (reconnect env clk s) = reconnect env clk s) \<and>
         (1 \<le> k \<and> k \<le> 5 \<and> env k = StartTrue \<and> (\<forall>j. 1 \<le> j \<and> j < k \<longrightarrow> env j \<noteq> StartTrue) \<longrightarrow>
            count_list (drop (length (conn_log s)) (conn_log (reconnect env clk s))) CreateCalled = k \<and>
            reconnect_attempts (reconnect env clk s) = 0 \<and>
            is_running (reconnect env clk s) \<and>
            errors (reconnect env clk s) = errors s \<and>
            (transcription_callback s \<longrightarrow>
               emitted (reconnect env clk s) = emitted s @ [reconnect_result clk]))"
proof -
  let ?t = "s\<lparr>is_reconnecting := True\<rparr>"
  let ?s' = "reconnect env clk s"
  have r: "?s' = reconnect_loop env clk ?t"
    using assms by (simp add: reconnect_def)
  have t: "is_running ?t" "reconnect_attempts ?t = 0" "conn_log ?t = conn_log s"
    "emitted ?t = emitted s" "errors ?t = errors s" "error_callback ?t = error_callback s"
    "transcription_callback ?t = transcription_callback s"
    using assms by simp_all
  obtain ys where ys: "conn_log ?s' = conn_log s @ ys" "delayed_opens ys"
    "count_list ys CreateCalled \<le> max_reconnect_attempts - reconnect_attempts ?t"
    using reconnect_loop_log [of env clk ?t] r t(3) by auto
  have new: "drop (length (conn_log s)) (conn_log ?s') = ys"
    using ys(1) by simp
  have A: "conn_log ?s' = conn_log s @ drop (length (conn_log s)) (conn_log ?s') \<and>
           delayed_opens (drop (length (conn_log s)) (conn_log ?s')) \<and>
           count_list (drop (length (conn_log s)) (conn_log ?s')) CreateCalled \<le> 5"
    using ys new t(2) by (simp add: max_reconnect_attempts_def)
  have B: "count_list (drop (length (conn_log s)) (conn_log ?s')) CreateCalled = 5 \<and>
           \<not> is_running ?s' \<and> emitted ?s' = emitted s \<and>
           (error_callback s \<longrightarrow> (\<exists>m. errors ?s' = errors s @ [reconnect_error_prefix @ m])) \<and>
           send_audio raises audio_data ?s' = ?s'"
    if "\<forall>k. 1 \<le> k \<and> k \<le> 5 \<longrightarrow> env k \<noteq> StartTrue"
  proof -
    have all: "\<forall>k. reconnect_attempts ?t < k \<and> k \<le> max_reconnect_attempts \<longrightarrow> env k \<noteq> StartTrue"
      using that t(2) by (simp add: max_reconnect_attempts_def Suc_le_eq)
    have lt: "reconnect_attempts ?t < max_reconnect_attempts"
      using t(2) by (simp add: max_reconnect_attempts_def)
    note ex = reconnect_loop_exhausted [OF t(1) lt all, of clk, folded r]
    from ex obtain zs where zs: "conn_log ?s' = conn_log ?t @ zs"
      "count_list zs CreateCalled = max_reconnect_attempts - reconnect_attempts ?t" by blast
    have "zs = ys" using zs(1) ys(1) t(3) by simp
    then have "count_list (drop (length (conn_log s)) (conn_log ?s')) CreateCalled = 5"
      using zs(2) new t(2) by (simp add: max_reconnect_attempts_def)
    moreover have "\<not> is_running ?s'" using ex by simp
    moreover have "emitted ?s' = emitted s" using ex t(4) by simp
    moreover have "error_callback s \<longrightarrow> (\<exists>m. errors ?s' = errors s @ [reconnect_error_prefix @ m])"
      using ex t(5,6) by simp
    ultimately show ?thesis by (simp add: send_audio_stopped)
  qed
  have C: "count_list (drop (length (conn_log s)) (conn_log ?s')) CreateCalled = k \<and>
           reconnect_attempts ?s' = 0 \<and> is_running ?s' \<and> errors ?s' = errors s \<and>
           (transcription_callback s \<longrightarrow> emitted ?s' = emitted s @ [reconnect_result clk])"
    if "1 \<le> k \<and> k \<le> 5 \<and> env k = StartTrue \<and> (\<forall>j. 1 \<le> j \<and> j < k \<longrightarrow> env j \<noteq> StartTrue)"
  proof -
    have k: "reconnect_attempts ?t < k" "k \<le> max_reconnect_attempts" "env k = StartTrue"
      "\<forall>j. reconnect_attempts ?t < j \<and> j < k \<longrightarrow> env j \<noteq> StartTrue"
      using that t(2) by (simp_all add: max_reconnect_attempts_def Suc_le_eq)
    note ok = reconnect_loop_success [OF t(1) k, of clk, folded r]
    from ok obtain zs where zs: "conn_log ?s' = conn_log ?t @ zs"
      "count_list zs CreateCalled = k - reconnect_attempts ?t" by blast
    have "zs = ys" using zs(1) ys(1) t(3) by simp
    then have "count_list (drop (length (conn_log s)) (conn_log ?s')) CreateCalled = k"
      using zs(2) new t(2) by simp
    moreover have "reconnect_attempts ?s' = 0 \<and> is_running ?s' \<and> errors ?s' = errors s"
      using ok t(5) by simp
    moreover have "transcription_callback s \<longrightarrow> emitted ?s' = emitted s @ [reconnect_result clk]"
      using ok t(4,7) by simp
    ultimately show ?thesis by simp
  qed
  show ?thesis using A B C by blast
qed

theorem reconnect_bounded_witness:
  "is_running (started_session True) \<and> \<not> is_reconnecting (started_session True) \<and>
   reconnect_attempts (started_session True) = 0 \<and> error_callback (started_session True) \<and>
   transcription_callback (started_session True) \<and>
   delayed_opens (drop (length (conn_log (started_session True)))
     (conn_log (reconnect (\<lambda>k. StartFalse) (at_time 7) (started_session True)))) \<and>
   count_list (drop (length (conn_log (started_session True)))
     (conn_log (reconnect (\<lambda>k. StartFalse) (at_time 7) (started_session True)))) CreateCalled = 5 \<and>
   \<not> is_running (reconnect (\<lambda>k. StartFalse) (at_time 7) (started_session True)) \<and>
   (\<exists>m. errors (reconnect (\<lambda>k. StartFalse) (at_time 7) (started_session True)) =
          [reconnect_error_prefix @ m]) \<and>
   send_audio None [1, 2] (reconnect (\<lambda>k. StartFalse) (at_time 7) (started_session True)) =
     reconnect (\<lambda>k. StartFalse) (at_time 7) (started_session True) \<and>
   count_list (drop (length (conn_log (started_session True)))
     (conn_log (reconnect (\<lambda>k. if k = 3 then StartTrue else StartFalse) (at_time 7)
        (started_session True)))) CreateCalled = 3 \<and>
   reconnect_attempts (reconnect (\<lambda>k. if k = 3 then StartTrue else StartFalse) (at_time 7)
        (started_session True)) = 0 \<and>
   emitted (reconnect (\<lambda>k. if k = 3 then StartTrue else StartFalse) (at_time 7)
        (started_session True)) = [reconnect_result (at_time 7)]"
  using reconnect_bounded [where s = "started_session True" and env = "\<lambda>k. StartFalse"
          and clk = "at_time 7" and raises = None and audio_data = "[1, 2]" and k = 1]
        reconnect_bounded [where s = "started_session True"
          and env = "\<lambda>k. if k = 3 then StartTrue else StartFalse"
          and clk = "at_time 7" and raises = None and audio_data = "[1, 2]" and k = 3]
  by (simp add: started_session_eq)

text \<open>The log of the calls when every attempt is refused: the connection of the start,
  then five rounds of finish, sleep, create, start.\<close>

lemma reconnect_exhaustion_example:
  "conn_log (reconnect (\<lambda>k. StartFalse) (at_time 7) (started_session True)) =
     [CreateCalled, StartCalled,
      Finished, Slept 2, CreateCalled, StartCalled,
      Finished, Slept 2, CreateCalled, StartCalled,
      Finished, Slept 2, CreateCalled, StartCalled,
      Finished, Slept 2, CreateCalled, StartCalled,
      Finished, Slept 2, CreateCalled, StartCalled] \<and>
   errors (reconnect (\<lambda>k. StartFalse) (at_time 7) (started_session True)) =
     [reconnect_error_prefix @ ''Failed to reconnect'']"
  apply (simp add: reconnect_def started_session_eq)
  apply (subst reconnect_loop.simps, simp add: reconnect_attempt_def max_reconnect_attempts_def reconnect_delay_def report_error_def Let_def)+
  done

section \<open>Claims about stopping and starting\<close>

lemma backlog_session_eq:
  "backlog_session =
     busy_session\<lparr>pending_text := [], last_translation_time := 100.2,
       polish_queue := [Some \<lparr> item_text = ''hello world.'', item_language = ''en'',
                                item_timestamp = ''12:00:00'' \<rparr>]\<rparr>"
  by (simp add: backlog_session_def run_def busy_session_eq on_transcript_def fragment_def
      at_time_def queue_for_polish_def detected_lang_def Let_def)

lemma polish_took_fields [simp]:
  "is_running (polish_took s) = is_running s"
  "transcription_callback (polish_took s) = transcription_callback s"
  by (simp_all add: polish_took_def split: list.splits option.splits)

lemma polish_processor_running [simp]: "is_running (polish_processor s) = is_running s"
  by (simp add: polish_processor_def)

lemma polish_complete_running [simp]: "is_running (polish_complete oc item s) = is_running s"
  by (simp add: polish_complete_def emit_def polish_transcription_def add_to_context_def Let_def
      split: polish_outcome.splits prod.splits)

lemma polish_complete_after_stop:
  assumes "\<not> is_running s"
  shows "polish_task (polish_complete oc item s) = Done"
  using assms
  by (simp add: polish_complete_def polish_processor_def emit_def polish_transcription_def
      add_to_context_def Let_def split: polish_outcome.splits prod.splits)

lemma await_task_running: "is_running (await_task oc s) = is_running s"
  by (simp add: await_task_def resume_task_def Let_def split: task_status.splits)

lemma stop_not_running: "\<not> is_running (stop oc s)"
  by (simp add: stop_def Let_def await_task_running)

lemma stop_in_flight:
  assumes "polish_task s = InFlight item"
  shows "stop oc s =
     polish_complete oc item
       ((if connection s
         then s\<lparr>is_running := False, is_reconnecting := False, connection := False,
                 conn_log := conn_log s @ [Finished]\<rparr>
         else s\<lparr>is_running := False, is_reconnecting := False\<rparr>)
        \<lparr>polish_queue := polish_queue s @ [None]\<rparr>)"
  using assms by (simp add: stop_def await_task_def resume_task_def Let_def)

lemma stop_waiting:
  assumes "polish_task s = Waiting" "polish_queue s = []"
  shows "polish_task (stop oc s) = Done" "polish_queue (stop oc s) = []"
    "emitted (stop oc s) = emitted s"
  using assms by (simp_all add: stop_def await_task_def polish_took_def Let_def)

text \<open>
  C6. As stated (every fragment put on the queue before the sentinel is processed) the
  claim fails: \<^verbatim>\<open>stop\<close> clears \<^verbatim>\<open>is_running\<close> before it queues the sentinel, and
  the processor tests \<^verbatim>\<open>is_running\<close> at the head of its loop. What holds: the call
  that is under way when \<^verbatim>\<open>stop\<close> is called completes and its final result, carrying
  the submitted text, is passed to the transcription callback; a processor waiting on the
  empty queue leaves on the sentinel; either way the processor task ends and the session
  is not running.
\<close>

theorem stop_completes_in_flight:
  "(polish_task s = InFlight item \<and> transcription_callback s \<longrightarrow>
      polish_task (stop oc s) = Done \<and>
      emitted (stop oc s) =
        emitted s @ [fst (polish_transcription oc (item_text item) (item_language item)
                            (item_timestamp item) s)] \<and>
      is_final (last (emitted (stop oc s))) \<and>
      original_text (last (emitted (stop oc s))) = item_text item) \<and>
   (polish_task s = Waiting \<and> polish_queue s = [] \<longrightarrow>
      polish_task (stop oc s) = Done \<and> polish_queue (stop oc s) = [] \<and>
      emitted (stop oc s) = emitted s) \<and>
   \<not> is_running (stop oc s)"
  by (simp add: stop_not_running stop_waiting stop_in_flight polish_complete_after_stop
      polish_complete_emitted polish_transcription_result make_result_def)

theorem stop_completes_in_flight_witness:
  "polish_task busy_session =
     InFlight \<lparr> item_text = ''hel'', item_language = ''en'', item_timestamp = ''12:00:00'' \<rparr> \<and>
   transcription_callback busy_session \<and>
   polish_task (started_session True) = Waiting \<and> polish_queue (started_session True) = [] \<and>
   polish_task (stop (ResponseObject (Some ''ni hao'')) busy_session) = Done \<and>
   emitted (stop (ResponseObject (Some ''ni hao'')) busy_session) =
     emitted busy_session @
       [\<lparr> detected_language = ''en'', original_text = ''hel'', chinese_translation = ''ni hao'',
          timestamp = ''12:00:00'', is_final = True \<rparr>] \<and>
   polish_task (stop (CallRaises []) (started_session True)) = Done \<and>
   polish_queue (stop (CallRaises []) (started_session True)) = []"
  using stop_completes_in_flight [where s = busy_session
          and oc = "ResponseObject (Some ''ni hao'')"
          and item = "\<lparr> item_text = ''hel'', item_language = ''en'',
                         item_timestamp = ''12:00:00'' \<rparr>"]
        stop_completes_in_flight [where s = "started_session True" and oc = "CallRaises []"]
  by (simp add: busy_session_eq started_session_eq polish_transcription_result make_result_def)

text \<open>
  C6, the failing input. "hello world." is on the queue behind the call for "hel" when
  \<^verbatim>\<open>stop\<close> is called: the processor ends after the result for "hel", and
  "hello world." stays on the queue, in front of the sentinel, with no result emitted.
\<close>

theorem stop_drops_queued_counterexample:
  "polish_queue backlog_session =
     [Some \<lparr> item_text = ''hello world.'', item_language = ''en'',
             item_timestamp = ''12:00:00'' \<rparr>] \<and>
   polish_task (stop (ResponseObject (Some ''ni hao'')) backlog_session) = Done \<and>
   polish_queue (stop (ResponseObject (Some ''ni hao'')) backlog_session) =
     [Some \<lparr> item_text = ''hello world.'', item_language = ''en'',
             item_timestamp = ''12:00:00'' \<rparr>, None] \<and>
   map original_text (emitted (stop (ResponseObject (Some ''ni hao'')) backlog_session)) =
     [''hel'', ''hel'']"
  by (simp add: backlog_session_eq busy_session_eq stop_def await_task_def resume_task_def
      polish_complete_def polish_transcription_def add_to_context_def make_result_def
      context_window_def emit_def polish_processor_def Let_def)

text \<open>
  C9. As stated (\<^verbatim>\<open>start\<close> raises \<^verbatim>\<open>ConnectionError\<close>) the claim fails: when
  \<^verbatim>\<open>connection.start\<close> returns false, \<^verbatim>\<open>start\<close> raises a plain
  \<^verbatim>\<open>Exception("Failed to connect to Deepgram")\<close>. What holds: whenever the connection
  cannot be opened, \<^verbatim>\<open>start\<close> fails by raising an exception, that plain
  \<^verbatim>\<open>Exception\<close> or the exception raised while opening, after the error callback was
  given the message.
\<close>

theorem start_failure_raises:
  "(oc \<noteq> StartTrue \<longrightarrow> fst (start oc s) \<noteq> None) \<and>
   fst (start StartFalse s) = Some (Raise Exception ''Failed to connect to Deepgram'') \<and>
   fst (start (StartRaises e) s) = Some e \<and>
   fst (start (CreateRaises e) s) = Some e \<and>
   fst (start StartTrue s) = None \<and>
   (oc \<noteq> StartTrue \<and> error_callback s \<longrightarrow>
      (\<exists>m. errors (snd (start oc s)) = errors s @ [start_error_prefix @ m]))"
  by (cases oc) (simp_all add: start_def Let_def report_error_def)

theorem start_failure_raises_witness:
  "StartFalse \<noteq> StartTrue \<and>
   error_callback (set_error_callback (init_transcriber ''en'' True)) \<and>
   fst (start StartFalse (set_error_callback (init_transcriber ''en'' True))) \<noteq> None \<and>
   (\<exists>m. errors (snd (start StartFalse (set_error_callback (init_transcriber ''en'' True)))) =
          errors (set_error_callback (init_transcriber ''en'' True)) @ [start_error_prefix @ m])"
  using start_failure_raises [where oc = StartFalse
          and s = "set_error_callback (init_transcriber ''en'' True)"]
  by (simp add: set_error_callback_def init_transcriber_def)

text \<open>C9, the failing input: the transport reports failure on a fresh transcriber.\<close>

theorem start_generic_exception_counterexample:
  "fst (start StartFalse (init_transcriber ''en'' True)) =
     Some (Raise Exception ''Failed to connect to Deepgram'') \<and>
   exc_class_of (Raise Exception ''Failed to connect to Deepgram'') \<noteq> ConnectionError"
  by (simp add: start_def Let_def report_error_def init_transcriber_def)

section \<open>Claims about the context window\<close>

lemma polish_transcription_recent:
  "recent_transcriptions (snd (polish_transcription oc tx lang ts s)) =
     (case oc of
        CallRaises e \<Rightarrow> recent_transcriptions s
      | ResponseNotObject \<Rightarrow> recent_transcriptions s
      | _ \<Rightarrow> drop (Suc (length (recent_transcriptions s)) - 40)
                (recent_transcriptions s @ [fst (polish_transcription oc tx lang ts s)]))"
  by (simp add: polish_transcription_state split: polish_outcome.splits)

lemma polish_complete_recent:
  "recent_transcriptions (polish_complete oc item s) =
     recent_transcriptions (snd (polish_transcription oc (item_text item) (item_language item)
                                   (item_timestamp item) s))"
  by (simp add: polish_complete_def emit_def split: prod.splits)

lemma on_transcript_recent:
  "recent_transcriptions (on_transcript clk result s) = recent_transcriptions s"
  by (simp add: on_transcript_def queue_for_polish_def emit_def report_error_def Let_def
      split: option.splits list.splits)

lemma reconnect_loop_recent:
  "recent_transcriptions (reconnect_loop env clk s) = recent_transcriptions s"
proof (induction env clk s rule: reconnect_loop.induct)
  case (1 env clk s)
  show ?case
  proof (cases "is_running s \<and> reconnect_attempts s < max_reconnect_attempts")
    case False
    then show ?thesis by (subst reconnect_loop.simps) auto
  next
    case True
    obtain s' ex where att: "reconnect_attempt (env (Suc (reconnect_attempts s))) clk s = (s', ex)"
      by force
    have kept: "recent_transcriptions s' = recent_transcriptions s"
      using reconnect_attempt_kept(1) [of "env (Suc (reconnect_attempts s))" clk s] att by simp
    show ?thesis
    proof (cases ex)
      case Continue
      have "reconnect_loop env clk s = reconnect_loop env clk s'"
        using True att Continue by (subst reconnect_loop.simps) simp
      then show ?thesis
        using "1.IH" [OF True att [symmetric, unfolded Continue] refl] kept by simp
    next
      case Return
      have "reconnect_loop env clk s = s'"
        using True att Return by (subst reconnect_loop.simps) simp
      then show ?thesis using kept by simp
    next
      case Break
      have "reconnect_loop env clk s = s'\<lparr>is_reconnecting := False\<rparr>"
        using True att Break by (subst reconnect_loop.simps) simp
      then show ?thesis using kept by simp
    qed
  qed
qed

lemma on_close_recent:
  "recent_transcriptions (on_close s) = recent_transcriptions s"
  by (simp add: on_close_def Let_def)

lemma reconnect_task_recent:
  "recent_transcriptions (reconnect_task env clk s) = recent_transcriptions s"
  by (simp add: reconnect_task_def reconnect_def reconnect_loop_recent)

lemma start_recent: "recent_transcriptions (snd (start oc s)) = recent_transcriptions s"
  by (cases oc) (simp_all add: start_def Let_def report_error_def)

lemma send_audio_recent:
  "recent_transcriptions (send_audio raises audio_data s) = recent_transcriptions s"
  by (simp add: send_audio_def report_error_def split: option.splits)

lemma appended_with_capI:
  "new = drop (Suc (length old) - 40) (old @ [r]) \<Longrightarrow> appended_with_cap old new"
proof -
  assume new: "new = drop (Suc (length old) - 40) (old @ [r])"
  have len: "Suc (length old) - 40 < length (old @ [r])" by simp
  then have ne: "new \<noteq> []" using new by simp
  have "last new = last (old @ [r])"
    using new len by (simp only: last_drop)
  then have "last new = r" by simp
  then show ?thesis using new ne by (simp add: appended_with_cap_def)
qed

lemma appended_with_cap_length:
  "appended_with_cap old new \<Longrightarrow> length old \<le> 40 \<Longrightarrow> length new \<le> 40"
proof -
  assume a: "appended_with_cap old new" and b: "length old \<le> 40"
  then have "length new = length (drop (Suc (length old) - 40) (old @ [last new]))"
    by (simp add: appended_with_cap_def)
  then show ?thesis using b by simp
qed

lemma polish_complete_step:
  "recent_transcriptions (polish_complete oc item s) = recent_transcriptions s \<or>
   translated oc \<and>
     appended_with_cap (recent_transcriptions s) (recent_transcriptions (polish_complete oc item s))"
  by (cases oc)
     (simp_all add: polish_complete_recent polish_transcription_recent translated_def
        appended_with_capI)

lemma resume_task_step:
  "recent_transcriptions (resume_task oc s) = recent_transcriptions s \<or>
   translated oc \<and>
     appended_with_cap (recent_transcriptions s) (recent_transcriptions (resume_task oc s))"
  using polish_complete_step [of oc _ s]
  by (simp add: resume_task_def split: task_status.splits)

lemma await_task_step:
  "recent_transcriptions (await_task oc s) = recent_transcriptions s \<or>
   translated oc \<and>
     appended_with_cap (recent_transcriptions s) (recent_transcriptions (await_task oc s))"
proof (cases "polish_task s")
  case Waiting
  show ?thesis
  proof (cases "polish_task (polish_took s)")
    case (InFlight item)
    then show ?thesis
      using Waiting polish_complete_step [of oc item "polish_took s"]
      by (simp add: await_task_def Let_def)
  qed (simp_all add: await_task_def Let_def Waiting)
qed (use resume_task_step [of oc s] in \<open>simp_all add: await_task_def\<close>)

lemma stop_step:
  "recent_transcriptions (stop oc s) = recent_transcriptions s \<or>
   translated oc \<and>
     appended_with_cap (recent_transcriptions s) (recent_transcriptions (stop oc s))"
proof -
  let ?s2 = "if connection s
         then s\<lparr>is_running := False, is_reconnecting := False, connection := False,
                 conn_log := conn_log s @ [Finished]\<rparr>
         else s\<lparr>is_running := False, is_reconnecting := False\<rparr>"
  let ?s3 = "?s2\<lparr>polish_queue := polish_queue ?s2 @ [None]\<rparr>"
  have eq: "stop oc s = (if polish_task s \<noteq> NotCreated then await_task oc ?s3 else ?s2)"
    by (simp add: stop_def Let_def)
  have r: "recent_transcriptions ?s3 = recent_transcriptions s"
    "recent_transcriptions ?s2 = recent_transcriptions s" by simp_all
  show ?thesis
    using await_task_step [of oc ?s3] r unfolding eq by (simp split: if_splits)
qed

lemma apply_event_step:
  "recent_transcriptions (apply_event ev s) = recent_transcriptions s \<or>
   (\<exists>oc. (ev = TaskResumed oc \<or> ev = Stop oc) \<and> translated oc) \<and>
     appended_with_cap (recent_transcriptions s) (recent_transcriptions (apply_event ev s))"
proof (cases ev)
  case (Stop oc)
  then show ?thesis using stop_step [of oc s] by auto
next
  case (TaskResumed oc)
  then show ?thesis using resume_task_step [of oc s] by auto
qed (simp_all add: set_transcription_callback_def set_error_callback_def start_recent
      on_open_def on_close_recent on_error_def reconnect_task_recent on_transcript_recent
      send_audio_recent)

lemma run_bounded:
  "length (recent_transcriptions s) \<le> 40 \<Longrightarrow>
     length (recent_transcriptions (run evs s)) \<le> 40"
proof (induction evs arbitrary: s)
  case Nil
  then show ?case by (simp add: run_def)
next
  case (Cons ev evs)
  have "length (recent_transcriptions (apply_event ev s)) \<le> 40"
    using apply_event_step [of ev s] Cons.prems appended_with_cap_length by auto
  then show ?case using Cons.IH [of "apply_event ev s"] by (simp add: run_def)
qed

text \<open>
  C5. In every state a session reaches from its initial state, \<open>recent_transcriptions\<close>
  holds at most 40 entries. An event either leaves it as it was or, when a polish call
  came back and was decoded, adds the new result at the end and cuts from the front: below
  40 entries the result is appended, at 40 the oldest entry goes and the rest keeps its
  order. When the call raises (or its answer has no members to read) the list is unchanged.
\<close>

theorem context_window_bounded:
  "length (recent_transcriptions (run evs (init_transcriber lang interim))) \<le> 40 \<and>
   (recent_transcriptions (apply_event ev s) = recent_transcriptions s \<or>
    (\<exists>oc. (ev = TaskResumed oc \<or> ev = Stop oc) \<and> translated oc) \<and>
      appended_with_cap (recent_transcriptions s) (recent_transcriptions (apply_event ev s))) \<and>
   (translated oc \<and> length (recent_transcriptions s) < 40 \<longrightarrow>
      recent_transcriptions (snd (polish_transcription oc tx lang ts s)) =
        recent_transcriptions s @ [fst (polish_transcription oc tx lang ts s)]) \<and>
   (translated oc \<and> length (recent_transcriptions s) = 40 \<longrightarrow>
      recent_transcriptions (snd (polish_transcription oc tx lang ts s)) =
        tl (recent_transcriptions s) @ [fst (polish_transcription oc tx lang ts s)]) \<and>
   (\<not> translated oc \<longrightarrow>
      recent_transcriptions (snd (polish_transcription oc tx lang ts s)) =
        recent_transcriptions s)"
proof -
  have a: "length (recent_transcriptions (run evs (init_transcriber lang interim))) \<le> 40"
    by (rule run_bounded) (simp add: init_transcriber_def)
  have b: "translated oc \<and> length (recent_transcriptions s) < 40 \<longrightarrow>
      recent_transcriptions (snd (polish_transcription oc tx lang ts s)) =
        recent_transcriptions s @ [fst (polish_transcription oc tx lang ts s)]"
    by (cases oc) (simp_all add: polish_transcription_recent translated_def)
  have c: "translated oc \<and> length (recent_transcriptions s) = 40 \<longrightarrow>
      recent_transcriptions (snd (polish_transcription oc tx lang ts s)) =
        tl (recent_transcriptions s) @ [fst (polish_transcription oc tx lang ts s)]"
    by (cases oc; cases "recent_transcriptions s")
       (simp_all add: polish_transcription_recent translated_def)
  have d: "\<not> translated oc \<longrightarrow>
      recent_transcriptions (snd (polish_transcription oc tx lang ts s)) =
        recent_transcriptions s"
    by (cases oc) (simp_all add: polish_transcription_recent translated_def)
  show ?thesis using a b c d apply_event_step [of ev s] by blast
qed

theorem context_window_bounded_witness:
  "translated (ResponseObject (Some ''ni hao'')) \<and>
   length (recent_transcriptions busy_session) < 40 \<and>
   recent_transcriptions (snd (polish_transcription (ResponseObject (Some ''ni hao''))
       ''hel'' ''en'' ''12:00:00'' busy_session)) =
     [make_result ''en'' ''hel'' ''ni hao'' ''12:00:00''] \<and>
   length (recent_transcriptions (busy_session\<lparr>recent_transcriptions :=
       replicate 40 (make_result ''en'' ''old'' ''jiu'' ''11:00:00'')\<rparr>)) = 40 \<and>
   recent_transcriptions (snd (polish_transcription (ResponseObject (Some ''ni hao''))
       ''hel'' ''en'' ''12:00:00''
       (busy_session\<lparr>recent_transcriptions :=
          replicate 40 (make_result ''en'' ''old'' ''jiu'' ''11:00:00'')\<rparr>))) =
     tl (replicate 40 (make_result ''en'' ''old'' ''jiu'' ''11:00:00'')) @
       [make_result ''en'' ''hel'' ''ni hao'' ''12:00:00''] \<and>
   \<not> translated (CallRaises ''timed out'') \<and>
   recent_transcriptions (snd (polish_transcription (CallRaises ''timed out'')
       ''hel'' ''en'' ''12:00:00'' busy_session)) = []"
  using context_window_bounded [where s = busy_session
          and oc = "ResponseObject (Some ''ni hao'')" and tx = "''hel''" and lang = "''en''"
          and ts = "''12:00:00''" and ev = ConnOpened and evs = "[]"]
        context_window_bounded [where
              s = "busy_session\<lparr>recent_transcriptions :=
                     replicate 40 (make_result ''en'' ''old'' ''jiu'' ''11:00:00'')\<rparr>"
          and oc = "ResponseObject (Some ''ni hao'')" and tx = "''hel''" and lang = "''en''"
          and ts = "''12:00:00''" and ev = ConnOpened and evs = "[]"]
        context_window_bounded [where s = busy_session
          and oc = "CallRaises ''timed out''" and tx = "''hel''" and lang = "''en''"
          and ts = "''12:00:00''" and ev = ConnOpened and evs = "[]"]
  by (simp add: busy_session_eq translated_def polish_transcription_result make_result_def)

section \<open>Scheduling of the reconnection\<close>

text \<open>An error event followed by a close event hands two coroutines to the main loop; the
  reconnection runs once.\<close>

lemma error_then_close_reconnects_once:
  "conn_log (run [ConnError, ConnClosed, ReconnectTask (\<lambda>k. StartTrue) (at_time 7)]
      (started_session True)) =
     [CreateCalled, StartCalled, Finished, Slept 2, CreateCalled, StartCalled] \<and>
   scheduled_reconnects (run [ConnError, ConnClosed] (started_session True)) = 2 \<and>
   scheduled_reconnects (run [ConnError, ConnClosed, ReconnectTask (\<lambda>k. StartTrue) (at_time 7)]
      (started_session True)) = 0"
  apply (simp add: run_def started_session_eq on_error_def on_close_def reconnect_task_def
      reconnect_def Let_def)
  apply (subst reconnect_loop.simps, simp add: reconnect_attempt_def max_reconnect_attempts_def
      reconnect_delay_def emit_def Let_def)+
  done

section \<open>Claims about the audio callback\<close>

lemma length_decimate3: "length (decimate3 xs) = (length xs + 2) div 3"
  by (induction xs rule: decimate3.induct) simp_all

lemma length_concat_singletons:
  "\<forall>row\<in>set rows. length row = 1 \<Longrightarrow> length (concat rows) = length rows"
  by (induction rows) simp_all

lemma length_tobytes: "length (tobytes a) = 2 * length (ravel a)"
  by (simp add: tobytes_def length_concat o_def sum_list_triv)

lemma ceil_third:
  "n div 3 \<le> (n + 2) div 3" "(n + 2) div 3 \<le> n div 3 + 1" "3 dvd n \<Longrightarrow> (n + 2) div 3 = n div 3"
  for n :: nat
  by (auto elim!: dvdE) 

text \<open>
  C8. Provided \<^verbatim>\<open>resample_poly(x, up=1, down=3)\<close> returns, for a one-dimensional input
  of \<open>n\<close> samples, a one-dimensional output of \<open>\<lceil>n / 3\<rceil>\<close> samples (its documented
  length): a 48 kHz stereo chunk of \<open>N\<close> frames becomes the conversion of the resampled
  row means, \<open>\<lceil>N / 3\<rceil>\<close> samples, which is \<open>\<lfloor>N / 3\<rfloor>\<close> or one more, and
  \<open>\<lfloor>N / 3\<rfloor>\<close> exactly when 3 divides \<open>N\<close>; a 16 kHz mono chunk keeps its length, each
  output sample being the input sample multiplied by 32767 and converted to 16 bits; the
  bytes put on the audio queue are two per sample.
\<close>

theorem audio_callback_normalizes:
  assumes "\<forall>xs. \<exists>ys. resample_poly np (Array1 xs) = Array1 ys \<and> length ys = (length xs + 2) div 3"
  shows "(device_sample_rate s = Some 48000 \<and> sample_rate s = 16000 \<longrightarrow>
            audio_int16 np s (Array2 2 rows) =
              elementwise (\<lambda>x. np_astype_int16 np (np_times_32767 np x))
                (resample_poly np (Array1 (map (np_mean np) rows))) \<and>
            length (ravel (audio_int16 np s (Array2 2 rows))) = (length rows + 2) div 3 \<and>
            length rows div 3 \<le> length (ravel (audio_int16 np s (Array2 2 rows))) \<and>
            length (ravel (audio_int16 np s (Array2 2 rows))) \<le> length rows div 3 + 1 \<and>
            (3 dvd length rows \<longrightarrow>
               length (ravel (audio_int16 np s (Array2 2 rows))) = length rows div 3)) \<and>
         (device_sample_rate s = Some 16000 \<longrightarrow>
            ravel (audio_int16 np s (Array1 xs)) =
              map (\<lambda>x. np_astype_int16 np (np_times_32767 np x)) xs \<and>
            ((\<forall>row\<in>set rows. length row = 1) \<longrightarrow>
               ravel (audio_int16 np s (Array2 1 rows)) =
                 map (\<lambda>x. np_astype_int16 np (np_times_32767 np x)) (concat rows) \<and>
               length (ravel (audio_int16 np s (Array2 1 rows))) = length rows)) \<and>
         (is_recording s \<longrightarrow>
            audio_queue (audio_callback np indata s) =
              audio_queue s @ [tobytes (audio_int16 np s indata)] \<and>
            length (tobytes (audio_int16 np s indata)) =
              2 * length (ravel (audio_int16 np s indata)))"
proof -
  obtain ys where ys: "resample_poly np (Array1 (map (np_mean np) rows)) = Array1 ys"
    "length ys = (length rows + 2) div 3"
    using assms [rule_format, of "map (np_mean np) rows"] by auto
  have stereo: "device_sample_rate s = Some 48000 \<and> sample_rate s = 16000 \<longrightarrow>
      audio_int16 np s (Array2 2 rows) =
        elementwise (\<lambda>x. np_astype_int16 np (np_times_32767 np x))
          (resample_poly np (Array1 (map (np_mean np) rows)))"
    by (simp add: audio_int16_def)
  have len: "device_sample_rate s = Some 48000 \<and> sample_rate s = 16000 \<longrightarrow>
      length (ravel (audio_int16 np s (Array2 2 rows))) = (length rows + 2) div 3"
    using ys by (simp add: audio_int16_def)
  have mono1: "device_sample_rate s = Some 16000 \<longrightarrow>
      ravel (audio_int16 np s (Array1 xs)) =
        map (\<lambda>x. np_astype_int16 np (np_times_32767 np x)) xs"
    by (simp add: audio_int16_def)
  have mono2: "device_sample_rate s = Some 16000 \<longrightarrow>
      ravel (audio_int16 np s (Array2 1 rows)) =
        map (\<lambda>x. np_astype_int16 np (np_times_32767 np x)) (concat rows)"
    by (simp add: audio_int16_def map_concat)
  have queue: "is_recording s \<longrightarrow>
      audio_queue (audio_callback np indata s) =
        audio_queue s @ [tobytes (audio_int16 np s indata)]"
    by (simp add: audio_callback_def Let_def)
  show ?thesis
    using stereo len mono1 mono2 queue ceil_third [of "length rows"]
      length_concat_singletons [of rows] length_tobytes [of "audio_int16 np s indata"]
    by simp
qed

theorem audio_callback_normalizes_witness:
  "(\<forall>xs. \<exists>ys. resample_poly sample_numpy (Array1 xs) = Array1 ys \<and>
              length ys = (length xs + 2) div 3) \<and>
   device_sample_rate (recording 48000) = Some 48000 \<and> sample_rate (recording 48000) = 16000 \<and>
   device_sample_rate (recording 16000) = Some 16000 \<and> is_recording (recording 48000) \<and>
   map length [[1], [0], [- 1 :: real]] = [1, 1, 1] \<and>
   ravel (audio_int16 sample_numpy (recording 48000)
            (Array2 2 [[1, 1], [1, 0], [0, 0], [- 1, - 1]])) = [32767, - 32767] \<and>
   length (ravel (audio_int16 sample_numpy (recording 48000)
            (Array2 2 [[1, 1], [1, 0], [0, 0], [- 1, - 1]]))) = (4 + 2) div 3 \<and>
   ravel (audio_int16 sample_numpy (recording 16000) (Array2 1 [[1], [0], [- 1]])) =
     [32767, 0, - 32767] \<and>
   audio_queue (audio_callback sample_numpy (Array2 1 [[1], [0], [- 1]]) (recording 16000)) =
     [[255, 127, 0, 0, 1, 128]]"
  using audio_callback_normalizes [where np = sample_numpy and s = "recording 48000"
          and rows = "[[1, 1], [1, 0], [0, 0], [- 1, - 1]]" and xs = "[]"
          and indata = "Array2 2 [[1, 1], [1, 0], [0, 0], [- 1, - 1]]"]
        audio_callback_normalizes [where np = sample_numpy and s = "recording 16000"
          and rows = "[[1], [0], [- 1]]" and xs = "[]"
          and indata = "Array2 1 [[1], [0], [- 1]]"]
  by (simp add: sample_numpy_def recording_def length_decimate3 audio_int16_def
      audio_callback_def tobytes_def toward_zero_def Let_def)


end
